theory Spec2Isabelle
  imports Main "HOL-Library.Word" "HOL-Library.FSet" "HOL-Library.AList"
begin

section \<open>Python values, errors and containers\<close>

text \<open>
  The module \<^verbatim>\<open>pons/_contract_abi.py\<close> works on byte strings, text strings, tuples,
  dictionaries and sets, and reports every failure by raising an exception.
  A byte string is a list of 8-bit words, a text string a \<open>string\<close>, a raised exception
  the left summand of a result \<open>py_error + 'a\<close>.
\<close>

type_synonym byte = "8 word"
type_synonym bytes = "byte list"

datatype py_error =
    ValueError string
  | TypeError string
  | KeyError string
  | IndexError string
  | UnknownError string

text \<open>\<open>str.encode()\<close>: a \<open>string\<close> already is the sequence of its UTF-8 bytes.\<close>

definition str_encode :: "string \<Rightarrow> bytes" where
  "str_encode s = map of_char s"

text \<open>\<open>sep.join(xs)\<close>.\<close>

fun str_join :: "string \<Rightarrow> string list \<Rightarrow> string" where
  "str_join sep [] = []"
| "str_join sep [x] = x"
| "str_join sep (x # y # ys) = x @ sep @ str_join sep (y # ys)"

text \<open>\<open>str(n)\<close> for a non-negative integer, as the f-strings of the module render a length.\<close>

fun str_nat :: "nat \<Rightarrow> string" where
  "str_nat n =
     (if n < 10 then [''0123456789'' ! n]
      else str_nat (n div 10) @ [''0123456789'' ! (n mod 10)])"

declare str_nat.simps [simp del]

text \<open>\<open>bytes.hex()\<close>: two lower-case hexadecimal digits per byte.\<close>

definition bytes_hex :: "bytes \<Rightarrow> string" where
  "bytes_hex bs =
     concat (map (\<lambda>b. [''0123456789abcdef'' ! (unat b div 16),
                        ''0123456789abcdef'' ! (unat b mod 16)]) bs)"

text \<open>
  A dictionary is an association list in insertion order.  Storing under a key that is
  present replaces the value and keeps the key's position; a new key goes to the end.
  That is \<^const>\<open>AList.update\<close>; a dictionary built from a sequence of key-value pairs
  (a dict comprehension, \<open>dict(zip(...))\<close>) stores them one after the other.
\<close>

definition py_dict :: "('k \<times> 'a) list \<Rightarrow> ('k \<times> 'a) list" where
  "py_dict kvs = foldl (\<lambda>d (k, v). AList.update k v d) [] kvs"

text \<open>Evaluating a comprehension whose element expression may raise: the first failure wins.\<close>

fun mapM :: "('a \<Rightarrow> py_error + 'b) \<Rightarrow> 'a list \<Rightarrow> py_error + 'b list" where
  "mapM f [] = Inr []"
| "mapM f (x # xs) =
     (case f x of
        Inl e \<Rightarrow> Inl e
      | Inr y \<Rightarrow> (case mapM f xs of Inl e \<Rightarrow> Inl e | Inr ys \<Rightarrow> Inr (y # ys)))"

text \<open>\<open>xs or []\<close> for an optional iterable.\<close>

definition or_empty :: "'a list option \<Rightarrow> 'a list" where
  "or_empty xs = (case xs of None \<Rightarrow> [] | Some ys \<Rightarrow> ys)"


section \<open>The standard library: \<open>keyword\<close> and \<open>inspect\<close>\<close>

text \<open>\<open>keyword.kwlist\<close> of Python 3.7 and later.\<close>

definition kwlist :: "string list" where
  "kwlist =
    [''False'', ''None'', ''True'', ''and'', ''as'', ''assert'', ''async'', ''await'',
     ''break'', ''class'', ''continue'', ''def'', ''del'', ''elif'', ''else'', ''except'',
     ''finally'', ''for'', ''from'', ''global'', ''if'', ''import'', ''in'', ''is'',
     ''lambda'', ''nonlocal'', ''not'', ''or'', ''pass'', ''raise'', ''return'', ''try'',
     ''while'', ''with'', ''yield'']"

definition iskeyword :: "string \<Rightarrow> bool" where
  "iskeyword s = (s \<in> set kwlist)"

text \<open>
  \<open>str.isidentifier()\<close> on ASCII names: a letter or underscore, then letters, digits and
  underscores.  (Python also accepts identifiers outside ASCII; the development only
  relies on names this predicate accepts being accepted.)
\<close>

definition id_start :: "char \<Rightarrow> bool" where
  "id_start ch =
     (let n = (of_char ch :: nat) in (65 \<le> n \<and> n \<le> 90) \<or> (97 \<le> n \<and> n \<le> 122) \<or> n = 95)"

definition id_continue :: "char \<Rightarrow> bool" where
  "id_continue ch = (id_start ch \<or> (let n = (of_char ch :: nat) in 48 \<le> n \<and> n \<le> 57))"

definition isidentifier :: "string \<Rightarrow> bool" where
  "isidentifier s = (case s of [] \<Rightarrow> False | ch # cs \<Rightarrow> id_start ch \<and> list_all id_continue cs)"

datatype param_kind = POSITIONAL_ONLY | POSITIONAL_OR_KEYWORD

text \<open>
  An \<open>inspect.Signature\<close> is the ordered list of its parameters, each a name and a kind.
  \<open>inspect.Parameter\<close> rejects a name that is not an identifier, or that is a keyword
  unless the parameter is positional-only; \<open>inspect.Signature\<close> rejects a repeated name.
  The parameters are built first (a list comprehension), then handed to the signature.
\<close>

type_synonym inspect_Signature = "(string \<times> param_kind) list"

definition inspect_Parameter :: "string \<Rightarrow> param_kind \<Rightarrow> py_error + (string \<times> param_kind)" where
  "inspect_Parameter name kind =
     (if (iskeyword name \<and> kind \<noteq> POSITIONAL_ONLY) \<or> \<not> isidentifier name
      then Inl (ValueError (name @ '' is not a valid parameter name''))
      else Inr (name, kind))"

definition inspect_Signature :: "(string \<times> param_kind) list \<Rightarrow> py_error + inspect_Signature" where
  "inspect_Signature ps =
     (case mapM (\<lambda>(name, kind). inspect_Parameter name kind) ps of
        Inl e \<Rightarrow> Inl e
      | Inr params \<Rightarrow>
          if distinct (map fst params) then Inr params
          else Inl (ValueError ''duplicate parameter name''))"


section \<open>The codec the module imports\<close>

text \<open>
  \<^verbatim>\<open>_contract_abi.py\<close> imports the value types and their binary codec from
  \<^verbatim>\<open>_abi_types.py\<close> and \<^verbatim>\<open>abi.py\<close>: the hash \<open>keccak\<close>, a type's \<open>canonical_form\<close>,
  \<open>decode_args\<close>, a type's \<open>encode_to_topic\<close> and \<open>decode_from_topic\<close>, the JSON
  dispatchers, and the two types \<open>abi.uint(256)\<close> and \<open>abi.string\<close> of the built-in errors.
  They are a parameter of every definition that uses them: \<open>'ty\<close> is the class \<open>Type\<close>,
  \<open>'v\<close> the values the codec encodes and decodes.
  A codec function that can raise returns a result.
\<close>

datatype json =
    JNull
  | JBool bool
  | JInt int
  | JStr string
  | JList "json list"
  | JDict "(string \<times> json) list"

datatype 'ty parameters = Mapping "(string \<times> 'ty) list" | Sequence "'ty list"

record ('ty, 'v) abi_codec =
  keccak :: "bytes \<Rightarrow> bytes"
  canonical_form :: "'ty \<Rightarrow> string"
  decode_args :: "'ty list \<Rightarrow> bytes \<Rightarrow> py_error + 'v list"
  encode_to_topic :: "'ty \<Rightarrow> 'v \<Rightarrow> py_error + bytes"
  decode_from_topic :: "'ty \<Rightarrow> bytes \<Rightarrow> py_error + 'v"
  dispatch_type :: "json \<Rightarrow> py_error + 'ty"
  dispatch_types :: "json \<Rightarrow> py_error + 'ty parameters"
  abi_uint256 :: "'ty"
  abi_string :: "'ty"


section \<open>\<open>make_name_safe\<close> and \<open>Signature\<close>\<close>

definition make_name_safe :: "string \<Rightarrow> string" where
  "make_name_safe name = (if iskeyword name then name @ ''_'' else name)"

record 'ty Signature =
  s_signature :: inspect_Signature
  s_types :: "'ty list"
  s_named_parameters :: bool

definition Signature_init :: "'ty parameters \<Rightarrow> py_error + 'ty Signature" where
  "Signature_init ps =
     (case ps of
        Mapping kvs \<Rightarrow>
          (case inspect_Signature
                  (map (\<lambda>(name, tp). (make_name_safe name, POSITIONAL_OR_KEYWORD)) kvs) of
             Inl e \<Rightarrow> Inl e
           | Inr sg \<Rightarrow>
               Inr \<lparr>s_signature = sg, s_types = map snd kvs, s_named_parameters = True\<rparr>)
      | Sequence tps \<Rightarrow>
          (case inspect_Signature
                  (map (\<lambda>i. (''_'' @ str_nat i, POSITIONAL_ONLY)) [0..<length tps]) of
             Inl e \<Rightarrow> Inl e
           | Inr sg \<Rightarrow>
               Inr \<lparr>s_signature = sg, s_types = tps, s_named_parameters = False\<rparr>))"

definition Signature_empty :: "'ty Signature \<Rightarrow> bool" where
  "Signature_empty s = (s_types s = [])"

definition Signature_canonical_form :: "('ty, 'v) abi_codec \<Rightarrow> 'ty Signature \<Rightarrow> string" where
  "Signature_canonical_form c s =
     ''('' @ str_join '','' (map (canonical_form c) (s_types s)) @ '')''"

definition Signature_decode_into_tuple ::
  "('ty, 'v) abi_codec \<Rightarrow> 'ty Signature \<Rightarrow> bytes \<Rightarrow> py_error + 'v list" where
  "Signature_decode_into_tuple c s value_bytes = decode_args c (s_types s) value_bytes"

definition Signature_decode_into_dict ::
  "('ty, 'v) abi_codec \<Rightarrow> 'ty Signature \<Rightarrow> bytes \<Rightarrow> py_error + (string \<times> 'v) list" where
  "Signature_decode_into_dict c s value_bytes =
     (case Signature_decode_into_tuple c s value_bytes of
        Inl e \<Rightarrow> Inl e
      | Inr decoded \<Rightarrow> Inr (py_dict (zip (map fst (s_signature s)) decoded)))"


text \<open>Subscripting a dictionary with a key it may lack.\<close>

definition getitem :: "(string \<times> 'a) list \<Rightarrow> string \<Rightarrow> py_error + 'a" where
  "getitem d k = (case map_of d k of None \<Rightarrow> Inl (KeyError k) | Some v \<Rightarrow> Inr v)"


section \<open>\<open>Either\<close> and \<open>EventSignature\<close>\<close>

text \<open>
  An argument of an event filter is an \<open>Either\<close> object holding its \<open>items\<close>, or any other
  value.
\<close>

datatype 'v arg = Either "'v list" | Val 'v

text \<open>
  \<open>inspect.Signature.bind_partial(*args, **kwargs)\<close>.  Positional arguments fill the
  parameters from the left; a parameter filled positionally must not also come by keyword.
  The parameters that remain take their value from \<open>kwargs\<close>, which is popped; a remaining
  parameter without a keyword argument stays unbound.  Keyword arguments left over are
  an error.  The result is the dictionary \<open>arguments\<close>.
\<close>

fun bind_positional ::
  "inspect_Signature \<Rightarrow> 'a list \<Rightarrow> (string \<times> 'a) list \<Rightarrow> (string \<times> 'a) list \<Rightarrow>
   py_error + ((string \<times> 'a) list \<times> inspect_Signature)" where
  "bind_positional params [] kwargs arguments = Inr (arguments, params)"
| "bind_positional [] (a # as) kwargs arguments =
     Inl (TypeError ''too many positional arguments'')"
| "bind_positional ((name, kind) # params) (a # as) kwargs arguments =
     (if name \<in> fst ` set kwargs \<and> kind \<noteq> POSITIONAL_ONLY
      then Inl (TypeError (''multiple values for argument '' @ name))
      else bind_positional params as kwargs (AList.update name a arguments))"

fun bind_keywords ::
  "inspect_Signature \<Rightarrow> (string \<times> 'a) list \<Rightarrow> (string \<times> 'a) list \<Rightarrow>
   py_error + ((string \<times> 'a) list \<times> (string \<times> 'a) list)" where
  "bind_keywords [] kwargs arguments = Inr (arguments, kwargs)"
| "bind_keywords ((name, kind) # params) kwargs arguments =
     (case map_of kwargs name of
        None \<Rightarrow> bind_keywords params kwargs arguments
      | Some v \<Rightarrow>
          if kind = POSITIONAL_ONLY
          then Inl (TypeError (name @ '' parameter is positional only, but was passed as a keyword''))
          else bind_keywords params (AList.delete name kwargs) (AList.update name v arguments))"

definition bind_partial ::
  "inspect_Signature \<Rightarrow> 'a list \<Rightarrow> (string \<times> 'a) list \<Rightarrow> py_error + (string \<times> 'a) list" where
  "bind_partial sg args kwargs =
     (case bind_positional sg args kwargs [] of
        Inl e \<Rightarrow> Inl e
      | Inr (arguments, params) \<Rightarrow>
          (case bind_keywords params kwargs arguments of
             Inl e \<Rightarrow> Inl e
           | Inr (arguments', kwargs') \<Rightarrow>
               (case kwargs' of
                  [] \<Rightarrow> Inr arguments'
                | (k, v) # rest \<Rightarrow> Inl (TypeError (''got an unexpected keyword argument '' @ k)))))"

record 'ty EventSignature =
  es_signature :: inspect_Signature
  es_types :: "(string \<times> 'ty) list"
  es_types_nonindexed :: "(string \<times> 'ty) list"
  es_indexed :: "string fset"

definition EventSignature_init ::
  "(string \<times> 'ty) list \<Rightarrow> string fset \<Rightarrow> py_error + 'ty EventSignature" where
  "EventSignature_init parameters indexed =
     (let parameters' = py_dict (map (\<lambda>(name, val). (make_name_safe name, val)) parameters);
          indexed' = make_name_safe |`| indexed
      in case inspect_Signature
                (map (\<lambda>(name, tp). (name, POSITIONAL_OR_KEYWORD))
                     (filter (\<lambda>(name, tp). name |\<in>| indexed') parameters')) of
           Inl e \<Rightarrow> Inl e
         | Inr sg \<Rightarrow>
             (case mapM (\<lambda>name. case getitem parameters' name of
                                   Inl e \<Rightarrow> Inl e | Inr tp \<Rightarrow> Inr (name, tp))
                        (filter (\<lambda>name. name |\<notin>| indexed') (map fst parameters')) of
                Inl e \<Rightarrow> Inl e
              | Inr nonindexed \<Rightarrow>
                  Inr \<lparr>es_signature = sg, es_types = parameters',
                       es_types_nonindexed = py_dict nonindexed, es_indexed = indexed'\<rparr>))"

text \<open>
  The body of the \<open>for\<close> loop of \<open>encode_to_topics\<close>: the entry appended to
  \<open>encoded_topics\<close> for one parameter name.
\<close>

definition encode_param ::
  "('ty, 'v) abi_codec \<Rightarrow> 'ty EventSignature \<Rightarrow> (string \<times> 'v arg) list \<Rightarrow> string \<Rightarrow>
   py_error + bytes list option" where
  "encode_param c es arguments param_name =
     (case map_of arguments param_name of
        None \<Rightarrow> Inr None
      | Some bound_val \<Rightarrow>
          (case getitem (es_types es) param_name of
             Inl e \<Rightarrow> Inl e
           | Inr tp \<Rightarrow>
               (case bound_val of
                  Either items \<Rightarrow>
                    (case mapM (encode_to_topic c tp) items of
                       Inl e \<Rightarrow> Inl e
                     | Inr encoded_val \<Rightarrow> Inr (Some encoded_val))
                | Val v \<Rightarrow>
                    (case encode_to_topic c tp v of
                       Inl e \<Rightarrow> Inl e
                     | Inr t \<Rightarrow> Inr (Some [t])))))"

fun encode_loop ::
  "('ty, 'v) abi_codec \<Rightarrow> 'ty EventSignature \<Rightarrow> (string \<times> 'v arg) list \<Rightarrow> string list \<Rightarrow>
   bytes list option list \<Rightarrow> py_error + bytes list option list" where
  "encode_loop c es arguments [] encoded_topics = Inr encoded_topics"
| "encode_loop c es arguments (param_name # rest) encoded_topics =
     (case encode_param c es arguments param_name of
        Inl e \<Rightarrow> Inl e
      | Inr t \<Rightarrow> encode_loop c es arguments rest (encoded_topics @ [t]))"

text \<open>\<open>while encoded_topics and encoded_topics[-1] is None: encoded_topics.pop()\<close>\<close>

function pop_trailing_None :: "'a option list \<Rightarrow> 'a option list" where
  "pop_trailing_None encoded_topics =
     (if encoded_topics \<noteq> [] \<and> last encoded_topics = None
      then pop_trailing_None (butlast encoded_topics)
      else encoded_topics)"
  by pat_completeness auto
termination
  by (relation "measure length") auto

declare pop_trailing_None.simps [simp del]

definition EventSignature_encode_to_topics ::
  "('ty, 'v) abi_codec \<Rightarrow> 'ty EventSignature \<Rightarrow> 'v arg list \<Rightarrow> (string \<times> 'v arg) list \<Rightarrow>
   py_error + bytes list option list" where
  "EventSignature_encode_to_topics c es args kwargs =
     (case bind_partial (es_signature es) args kwargs of
        Inl e \<Rightarrow> Inl e
      | Inr arguments \<Rightarrow>
          (case encode_loop c es arguments (map fst (es_signature es)) [] of
             Inl e \<Rightarrow> Inl e
           | Inr encoded_topics \<Rightarrow> Inr (pop_trailing_None encoded_topics)))"

definition topic_count_message :: "nat \<Rightarrow> nat \<Rightarrow> string" where
  "topic_count_message n_topics n_indexed =
     ''The number of topics in the log entry ('' @ str_nat n_topics @ '') does not match ''
     @ ''the number of indexed fields in the event ('' @ str_nat n_indexed @ '')''"

text \<open>The final loop of \<open>decode_log_entry\<close>, filling \<open>result\<close> in the order of \<open>_types\<close>.\<close>

fun merge_decoded ::
  "(string \<times> 'v) list \<Rightarrow> (string \<times> 'v) list \<Rightarrow> string list \<Rightarrow> (string \<times> 'v) list \<Rightarrow>
   py_error + (string \<times> 'v) list" where
  "merge_decoded decoded_topics decoded_data [] result = Inr result"
| "merge_decoded decoded_topics decoded_data (name # names) result =
     (case map_of decoded_topics name of
        Some v \<Rightarrow>
          merge_decoded decoded_topics decoded_data names (AList.update name v result)
      | None \<Rightarrow>
          (case getitem decoded_data name of
             Inl e \<Rightarrow> Inl e
           | Inr v \<Rightarrow>
               merge_decoded decoded_topics decoded_data names (AList.update name v result)))"

definition EventSignature_decode_log_entry ::
  "('ty, 'v) abi_codec \<Rightarrow> 'ty EventSignature \<Rightarrow> bytes list \<Rightarrow> bytes \<Rightarrow>
   py_error + (string \<times> 'v) list" where
  "EventSignature_decode_log_entry c es topics data =
     (if length topics \<noteq> fcard (es_indexed es)
      then Inl (ValueError (topic_count_message (length topics) (fcard (es_indexed es))))
      else
        case mapM (\<lambda>(name, topic).
                     case getitem (es_types es) name of
                       Inl e \<Rightarrow> Inl e
                     | Inr tp \<Rightarrow>
                         (case decode_from_topic c tp topic of
                            Inl e \<Rightarrow> Inl e
                          | Inr v \<Rightarrow> Inr (name, v)))
                  (zip (map fst (es_signature es)) topics) of
          Inl e \<Rightarrow> Inl e
        | Inr decoded_topics_items \<Rightarrow>
            (case decode_args c (map snd (es_types_nonindexed es)) data of
               Inl e \<Rightarrow> Inl e
             | Inr decoded_data_tuple \<Rightarrow>
                 merge_decoded (py_dict decoded_topics_items)
                   (py_dict (zip (map fst (es_types_nonindexed es)) decoded_data_tuple))
                   (map fst (es_types es)) []))"

definition EventSignature_canonical_form ::
  "('ty, 'v) abi_codec \<Rightarrow> 'ty EventSignature \<Rightarrow> string" where
  "EventSignature_canonical_form c es =
     ''('' @ str_join '','' (map (canonical_form c) (map snd (es_types es))) @ '')''"

section \<open>JSON entries\<close>

text \<open>
  A JSON ABI is a list of entries, each a dictionary from strings to JSON values
  (\<open>List[Dict[str, JSON]]\<close>).  The functions below are the operations the module applies
  to JSON values: truth value, iteration, subscripting with a string, \<open>str()\<close> in an
  error message.  Floats do not occur in an ABI and are left out of \<^typ>\<open>json\<close>.
\<close>

type_synonym json_entry = "(string \<times> json) list"

definition py_bool :: "json \<Rightarrow> bool" where
  "py_bool j =
     (case j of
        JNull \<Rightarrow> False
      | JBool b \<Rightarrow> b
      | JInt n \<Rightarrow> n \<noteq> 0
      | JStr s \<Rightarrow> s \<noteq> []
      | JList xs \<Rightarrow> xs \<noteq> []
      | JDict d \<Rightarrow> d \<noteq> [])"

definition json_iter :: "json \<Rightarrow> py_error + json list" where
  "json_iter j =
     (case j of
        JList xs \<Rightarrow> Inr xs
      | JDict d \<Rightarrow> Inr (map (\<lambda>(k, v). JStr k) d)
      | JStr s \<Rightarrow> Inr (map (\<lambda>ch. JStr [ch]) s)
      | _ \<Rightarrow> Inl (TypeError ''object is not iterable''))"

definition json_subscript :: "json \<Rightarrow> string \<Rightarrow> py_error + json" where
  "json_subscript j k =
     (case j of
        JDict d \<Rightarrow> getitem d k
      | _ \<Rightarrow> Inl (TypeError ''object is not subscriptable with a string''))"

definition json_hashable :: "json \<Rightarrow> bool" where
  "json_hashable j = (case j of JList xs \<Rightarrow> False | JDict d \<Rightarrow> False | _ \<Rightarrow> True)"

text \<open>
  \<open>str(j)\<close> inside an error message; the rendering of a list or dictionary is abbreviated.
\<close>

definition py_str :: "json \<Rightarrow> string" where
  "py_str j =
     (case j of
        JNull \<Rightarrow> ''None''
      | JBool b \<Rightarrow> (if b then ''True'' else ''False'')
      | JInt n \<Rightarrow> (if n < 0 then ''-'' @ str_nat (nat (- n)) else str_nat (nat n))
      | JStr s \<Rightarrow> s
      | JList xs \<Rightarrow> ''[...]''
      | JDict d \<Rightarrow> ''{...}'')"

text \<open>
  The entities keep a \<open>name\<close> of type \<open>str\<close>.  The module does not check that the JSON value
  under \<open>"name"\<close> is a string; it would carry another value along until the name is first
  used as a string.  Here such an entry is refused when the name is read.
\<close>

definition expect_str :: "json \<Rightarrow> py_error + string" where
  "expect_str j = (case j of JStr s \<Rightarrow> Inr s | _ \<Rightarrow> Inl (TypeError ''name is not a str''))"


section \<open>\<open>Constructor\<close>\<close>

record 'ty Constructor =
  c_inputs :: "'ty Signature"
  c_payable :: bool

definition Constructor_init :: "'ty parameters \<Rightarrow> bool \<Rightarrow> py_error + 'ty Constructor" where
  "Constructor_init inputs payable =
     (case Signature_init inputs of
        Inl e \<Rightarrow> Inl e
      | Inr sg \<Rightarrow> Inr \<lparr>c_inputs = sg, c_payable = payable\<rparr>)"

definition Constructor_from_json ::
  "('ty, 'v) abi_codec \<Rightarrow> json_entry \<Rightarrow> py_error + 'ty Constructor" where
  "Constructor_from_json c method_entry =
     (case getitem method_entry ''type'' of
        Inl e \<Rightarrow> Inl e
      | Inr tp \<Rightarrow>
          if tp \<noteq> JStr ''constructor''
          then Inl (ValueError
            (''Constructor object must be created from a JSON entry with type='constructor''
             @ [CHR 0x27]))
          else if ''name'' \<in> fst ` set method_entry
          then Inl (ValueError ''Constructor's JSON entry cannot have a `name`'')
          else if (case map_of method_entry ''outputs'' of None \<Rightarrow> False | Some out \<Rightarrow> py_bool out)
          then Inl (ValueError ''Constructor's JSON entry cannot have non-empty `outputs`'')
          else
            (case getitem method_entry ''stateMutability'' of
               Inl e \<Rightarrow> Inl e
             | Inr sm \<Rightarrow>
                 if sm \<noteq> JStr ''nonpayable'' \<and> sm \<noteq> JStr ''payable''
                 then Inl (ValueError
                   ''Constructor's JSON entry state mutability must be `nonpayable` or `payable`'')
                 else
                   (case dispatch_types c
                           (case map_of method_entry ''inputs'' of
                              None \<Rightarrow> JList [] | Some i \<Rightarrow> i) of
                      Inl e \<Rightarrow> Inl e
                    | Inr inputs \<Rightarrow> Constructor_init inputs (sm = JStr ''payable''))))"


section \<open>\<open>Mutability\<close> and \<open>Method\<close>\<close>

datatype Mutability = PURE | VIEW | NONPAYABLE | PAYABLE

definition Mutability_from_json :: "json \<Rightarrow> py_error + Mutability" where
  "Mutability_from_json entry =
     (if \<not> json_hashable entry then Inl (TypeError ''unhashable type'')
      else
        case map_of [(JStr ''pure'', PURE), (JStr ''view'', VIEW),
                     (JStr ''nonpayable'', NONPAYABLE), (JStr ''payable'', PAYABLE)] entry of
          None \<Rightarrow> Inl (ValueError (''Unknown mutability identifier: '' @ py_str entry))
        | Some m \<Rightarrow> Inr m)"

definition Mutability_payable :: "Mutability \<Rightarrow> bool" where
  "Mutability_payable m = (m = PAYABLE)"

definition Mutability_mutating :: "Mutability \<Rightarrow> bool" where
  "Mutability_mutating m = (m = PAYABLE \<or> m = NONPAYABLE)"

text \<open>
  The \<open>outputs\<close> argument of \<open>Method.__init__\<close>: \<open>None\<close>, one \<open>Type\<close>, or what a
  \<open>Signature\<close> takes (a mapping or a sequence of types).
\<close>

datatype 'ty outputs = OutNone | OutType 'ty | OutParams "'ty parameters"

record 'ty Method =
  m_name :: string
  m_inputs :: "'ty Signature"
  m_mutability :: Mutability
  m_payable :: bool
  m_mutating :: bool
  m_single_output :: bool
  m_outputs :: "'ty Signature"

definition Method_init ::
  "string \<Rightarrow> Mutability \<Rightarrow> 'ty parameters \<Rightarrow> 'ty outputs \<Rightarrow> py_error + 'ty Method" where
  "Method_init name mutability inputs outputs =
     (case Signature_init inputs of
        Inl e \<Rightarrow> Inl e
      | Inr inputs_sg \<Rightarrow>
          (let outputs1 = (case outputs of OutNone \<Rightarrow> OutParams (Sequence []) | _ \<Rightarrow> outputs);
               (outputs2, single_output) =
                  (case outputs1 of
                     OutType tp \<Rightarrow> (Sequence [tp], True)
                   | OutParams ps \<Rightarrow> (ps, False)
                   | OutNone \<Rightarrow> (Sequence [], False))
           in case Signature_init outputs2 of
                Inl e \<Rightarrow> Inl e
              | Inr outputs_sg \<Rightarrow>
                  Inr \<lparr>m_name = name, m_inputs = inputs_sg, m_mutability = mutability,
                       m_payable = Mutability_payable mutability,
                       m_mutating = Mutability_mutating mutability,
                       m_single_output = single_output, m_outputs = outputs_sg\<rparr>))"

text \<open>\<open>all(entry["name"] == "" for entry in ...)\<close>, which stops at the first entry that is named.\<close>

fun all_names_empty :: "json list \<Rightarrow> py_error + bool" where
  "all_names_empty [] = Inr True"
| "all_names_empty (entry # entries) =
     (case json_subscript entry ''name'' of
        Inl e \<Rightarrow> Inl e
      | Inr n \<Rightarrow> if n = JStr [] then all_names_empty entries else Inr False)"

definition Method_from_json ::
  "('ty, 'v) abi_codec \<Rightarrow> json_entry \<Rightarrow> py_error + 'ty Method" where
  "Method_from_json c method_entry =
     (case getitem method_entry ''type'' of
        Inl e \<Rightarrow> Inl e
      | Inr tp \<Rightarrow>
          if tp \<noteq> JStr ''function''
          then Inl (ValueError
            (''Method object must be created from a JSON entry with type='function''
             @ [CHR 0x27]))
          else
     (case getitem method_entry ''name'' of
        Inl e \<Rightarrow> Inl e
      | Inr name_json \<Rightarrow>
     (case expect_str name_json of
        Inl e \<Rightarrow> Inl e
      | Inr name \<Rightarrow>
     (case getitem method_entry ''inputs'' of
        Inl e \<Rightarrow> Inl e
      | Inr inputs_json \<Rightarrow>
     (case dispatch_types c inputs_json of
        Inl e \<Rightarrow> Inl e
      | Inr inputs \<Rightarrow>
     (case getitem method_entry ''stateMutability'' of
        Inl e \<Rightarrow> Inl e
      | Inr sm \<Rightarrow>
     (case Mutability_from_json sm of
        Inl e \<Rightarrow> Inl e
      | Inr mutability \<Rightarrow>
     (case map_of method_entry ''outputs'' of
        None \<Rightarrow> Method_init name mutability inputs (OutParams (Sequence []))
      | Some outputs_json \<Rightarrow>
          (case json_iter outputs_json of
             Inl e \<Rightarrow> Inl e
           | Inr entries \<Rightarrow>
               (case all_names_empty entries of
                  Inl e \<Rightarrow> Inl e
                | Inr True \<Rightarrow>
                    (case mapM (dispatch_type c) entries of
                       Inl e \<Rightarrow> Inl e
                     | Inr tps \<Rightarrow> Method_init name mutability inputs (OutParams (Sequence tps)))
                | Inr False \<Rightarrow>
                    (case dispatch_types c outputs_json of
                       Inl e \<Rightarrow> Inl e
                     | Inr outputs \<Rightarrow>
                         Method_init name mutability inputs (OutParams outputs))))))))))))"

text \<open>
  The result of \<open>decode_output\<close> is the tuple of decoded values or, for a single output,
  its first component.
\<close>

datatype 'v decoded = Bare 'v | Tuple "'v list"

definition Method_decode_output ::
  "('ty, 'v) abi_codec \<Rightarrow> 'ty Method \<Rightarrow> bytes \<Rightarrow> py_error + 'v decoded" where
  "Method_decode_output c m output_bytes =
     (case Signature_decode_into_tuple c (m_outputs m) output_bytes of
        Inl e \<Rightarrow> Inl e
      | Inr results \<Rightarrow>
          if m_single_output m
          then (case results of
                  [] \<Rightarrow> Inl (IndexError ''tuple index out of range'')
                | r # rs \<Rightarrow> Inr (Bare r))
          else Inr (Tuple results))"

section \<open>\<open>Event\<close> and \<open>EventFilter\<close>\<close>

text \<open>
  Modelled from the spec: \<open>LogTopic\<close> and \<open>LogEntry\<close>, which the module imports from
  \<^verbatim>\<open>_entities.py\<close>.  A topic is a fixed-width value wrapping a byte string
  (\<open>bytes(topic)\<close> gives it back, two topics are equal when their bytes are); a log entry
  is a record with an ordered sequence of topics and a data byte string, of which the
  module reads \<open>topics\<close> and \<open>data\<close>.  The constructor of \<open>LogTopic\<close> is taken to accept
  every byte string it is given here, the hash of the codec and its topic encodings.
\<close>

datatype LogTopic = LogTopic (topic_bytes: bytes)

record LogEntry =
  le_topics :: "LogTopic list"
  le_data :: bytes

record 'ty Event =
  e_name :: string
  e_indexed :: "string fset"
  e_fields :: "'ty EventSignature"
  e_anonymous :: bool

record EventFilter =
  ef_topics :: "LogTopic list option list"

definition Event_init ::
  "string \<Rightarrow> (string \<times> 'ty) list \<Rightarrow> string fset \<Rightarrow> bool \<Rightarrow> py_error + 'ty Event" where
  "Event_init name flds indexed anonymous =
     (if anonymous \<and> fcard indexed > 4
      then Inl (ValueError ''Anonymous events can have at most 4 indexed fields'')
      else if \<not> anonymous \<and> fcard indexed > 3
      then Inl (ValueError ''Non-anonymous events can have at most 3 indexed fields'')
      else
        case EventSignature_init flds indexed of
          Inl e \<Rightarrow> Inl e
        | Inr es \<Rightarrow>
            Inr \<lparr>e_name = name, e_indexed = indexed, e_fields = es, e_anonymous = anonymous\<rparr>)"

text \<open>
  The set comprehension of \<open>Event.from_json\<close>: the names of the inputs whose \<open>"indexed"\<close>
  is true.
\<close>

fun indexed_names :: "json list \<Rightarrow> py_error + string list" where
  "indexed_names [] = Inr []"
| "indexed_names (input # inputs) =
     (case json_subscript input ''indexed'' of
        Inl e \<Rightarrow> Inl e
      | Inr ix \<Rightarrow>
          if py_bool ix
          then (case json_subscript input ''name'' of
                  Inl e \<Rightarrow> Inl e
                | Inr name_json \<Rightarrow>
                    (case expect_str name_json of
                       Inl e \<Rightarrow> Inl e
                     | Inr name \<Rightarrow>
                         (case indexed_names inputs of
                            Inl e \<Rightarrow> Inl e
                          | Inr names \<Rightarrow> Inr (name # names))))
          else indexed_names inputs)"

definition Event_from_json ::
  "('ty, 'v) abi_codec \<Rightarrow> json_entry \<Rightarrow> py_error + 'ty Event" where
  "Event_from_json c event_entry =
     (case getitem event_entry ''type'' of
        Inl e \<Rightarrow> Inl e
      | Inr tp \<Rightarrow>
          if tp \<noteq> JStr ''event''
          then Inl (ValueError
            (''Event object must be created from a JSON entry with type='event''
             @ [CHR 0x27]))
          else
     (case getitem event_entry ''name'' of
        Inl e \<Rightarrow> Inl e
      | Inr name_json \<Rightarrow>
     (case expect_str name_json of
        Inl e \<Rightarrow> Inl e
      | Inr name \<Rightarrow>
     (case getitem event_entry ''inputs'' of
        Inl e \<Rightarrow> Inl e
      | Inr inputs_json \<Rightarrow>
     (case dispatch_types c inputs_json of
        Inl e \<Rightarrow> Inl e
      | Inr (Sequence tps) \<Rightarrow> Inl (ValueError ''Event fields must be named'')
      | Inr (Mapping flds) \<Rightarrow>
     (case json_iter inputs_json of
        Inl e \<Rightarrow> Inl e
      | Inr inputs \<Rightarrow>
     (case indexed_names inputs of
        Inl e \<Rightarrow> Inl e
      | Inr indexed \<Rightarrow>
     (case getitem event_entry ''anonymous'' of
        Inl e \<Rightarrow> Inl e
      | Inr anonymous \<Rightarrow>
          Event_init name flds (fset_of_list indexed) (py_bool anonymous)))))))))"

text \<open>The cached property \<open>_topic\<close>: computed from the event when it is first read.\<close>

definition Event_topic :: "('ty, 'v) abi_codec \<Rightarrow> 'ty Event \<Rightarrow> LogTopic" where
  "Event_topic c ev =
     LogTopic (keccak c (str_encode (e_name ev)
                         @ str_encode (EventSignature_canonical_form c (e_fields ev))))"

definition Event_call ::
  "('ty, 'v) abi_codec \<Rightarrow> 'ty Event \<Rightarrow> 'v arg list \<Rightarrow> (string \<times> 'v arg) list \<Rightarrow>
   py_error + EventFilter" where
  "Event_call c ev args kwargs =
     (case EventSignature_encode_to_topics c (e_fields ev) args kwargs of
        Inl e \<Rightarrow> Inl e
      | Inr encoded_topics \<Rightarrow>
          Inr \<lparr>ef_topics =
                 (if \<not> e_anonymous ev then [Some [Event_topic c ev]] else [])
                 @ map (\<lambda>topic. case topic of
                                   None \<Rightarrow> None
                                 | Some elems \<Rightarrow> Some (map LogTopic elems))
                       encoded_topics\<rparr>)"

definition Event_decode_log_entry ::
  "('ty, 'v) abi_codec \<Rightarrow> 'ty Event \<Rightarrow> LogEntry \<Rightarrow> py_error + (string \<times> 'v) list" where
  "Event_decode_log_entry c ev log_entry =
     (let topics = le_topics log_entry in
      if \<not> e_anonymous ev
      then (case topics of
              [] \<Rightarrow> Inl (IndexError ''tuple index out of range'')
            | topic0 # rest \<Rightarrow>
                if topic0 \<noteq> Event_topic c ev
                then Inl (ValueError ''This log entry belongs to a different event'')
                else EventSignature_decode_log_entry c (e_fields ev)
                       (map topic_bytes rest) (le_data log_entry))
      else EventSignature_decode_log_entry c (e_fields ev)
             (map topic_bytes topics) (le_data log_entry))"


section \<open>\<open>Error\<close>, \<open>Fallback\<close>, \<open>Receive\<close>\<close>

record 'ty Error =
  err_name :: string
  err_fields :: "'ty Signature"

definition Error_init :: "string \<Rightarrow> (string \<times> 'ty) list \<Rightarrow> py_error + 'ty Error" where
  "Error_init name flds =
     (case Signature_init (Mapping flds) of
        Inl e \<Rightarrow> Inl e
      | Inr sg \<Rightarrow> Inr \<lparr>err_name = name, err_fields = sg\<rparr>)"

definition Error_from_json ::
  "('ty, 'v) abi_codec \<Rightarrow> json_entry \<Rightarrow> py_error + 'ty Error" where
  "Error_from_json c error_entry =
     (case getitem error_entry ''type'' of
        Inl e \<Rightarrow> Inl e
      | Inr tp \<Rightarrow>
          if tp \<noteq> JStr ''error''
          then Inl (ValueError
            (''Error object must be created from a JSON entry with type='error''
             @ [CHR 0x27]))
          else
     (case getitem error_entry ''name'' of
        Inl e \<Rightarrow> Inl e
      | Inr name_json \<Rightarrow>
     (case expect_str name_json of
        Inl e \<Rightarrow> Inl e
      | Inr name \<Rightarrow>
     (case getitem error_entry ''inputs'' of
        Inl e \<Rightarrow> Inl e
      | Inr inputs_json \<Rightarrow>
     (case dispatch_types c inputs_json of
        Inl e \<Rightarrow> Inl e
      | Inr (Sequence tps) \<Rightarrow> Inl (ValueError ''Error fields must be named'')
      | Inr (Mapping flds) \<Rightarrow> Error_init name flds)))))"

definition Error_selector :: "('ty, 'v) abi_codec \<Rightarrow> 'ty Error \<Rightarrow> bytes" where
  "Error_selector c err =
     take 4 (keccak c (str_encode (err_name err)
                       @ str_encode (Signature_canonical_form c (err_fields err))))"

definition Error_decode_fields ::
  "('ty, 'v) abi_codec \<Rightarrow> 'ty Error \<Rightarrow> bytes \<Rightarrow> py_error + (string \<times> 'v) list" where
  "Error_decode_fields c err data_bytes = Signature_decode_into_dict c (err_fields err) data_bytes"

record Fallback =
  fb_payable :: bool

record Receive =
  rc_payable :: bool

definition Fallback_from_json :: "json_entry \<Rightarrow> py_error + Fallback" where
  "Fallback_from_json method_entry =
     (case getitem method_entry ''type'' of
        Inl e \<Rightarrow> Inl e
      | Inr tp \<Rightarrow>
          if tp \<noteq> JStr ''fallback''
          then Inl (ValueError
            (''Fallback object must be created from a JSON entry with type='fallback''
             @ [CHR 0x27]))
          else
            (case getitem method_entry ''stateMutability'' of
               Inl e \<Rightarrow> Inl e
             | Inr sm \<Rightarrow>
                 if sm \<noteq> JStr ''nonpayable'' \<and> sm \<noteq> JStr ''payable''
                 then Inl (ValueError
                   ''Fallback method's JSON entry state mutability must be `nonpayable` or `payable`'')
                 else Inr \<lparr>fb_payable = (sm = JStr ''payable'')\<rparr>))"

definition Receive_from_json :: "json_entry \<Rightarrow> py_error + Receive" where
  "Receive_from_json method_entry =
     (case getitem method_entry ''type'' of
        Inl e \<Rightarrow> Inl e
      | Inr tp \<Rightarrow>
          if tp \<noteq> JStr ''receive''
          then Inl (ValueError
            (''Receive object must be created from a JSON entry with type='fallback''
             @ [CHR 0x27]))
          else
            (case getitem method_entry ''stateMutability'' of
               Inl e \<Rightarrow> Inl e
             | Inr sm \<Rightarrow>
                 if sm \<noteq> JStr ''nonpayable'' \<and> sm \<noteq> JStr ''payable''
                 then Inl (ValueError
                   ''Receive method's JSON entry state mutability must be `nonpayable` or `payable`'')
                 else Inr \<lparr>rc_payable = (sm = JStr ''payable'')\<rparr>))"

text \<open>
  The module constants \<open>PANIC_ERROR = Error("Panic", dict(code=abi.uint(256)))\<close> and
  \<open>LEGACY_ERROR = Error("Error", dict(message=abi.string))\<close>, as the objects the two
  constructor calls return (lemmas \<open>PANIC_ERROR_init\<close> and \<open>LEGACY_ERROR_init\<close> below).
\<close>

definition PANIC_ERROR :: "('ty, 'v) abi_codec \<Rightarrow> 'ty Error" where
  "PANIC_ERROR c =
     \<lparr>err_name = ''Panic'',
      err_fields = \<lparr>s_signature = [(''code'', POSITIONAL_OR_KEYWORD)],
                    s_types = [abi_uint256 c], s_named_parameters = True\<rparr>\<rparr>"

definition LEGACY_ERROR :: "('ty, 'v) abi_codec \<Rightarrow> 'ty Error" where
  "LEGACY_ERROR c =
     \<lparr>err_name = ''Error'',
      err_fields = \<lparr>s_signature = [(''message'', POSITIONAL_OR_KEYWORD)],
                    s_types = [abi_string c], s_named_parameters = True\<rparr>\<rparr>"

section \<open>\<open>ContractABI\<close>\<close>

text \<open>
  \<open>Methods\<close> wraps a dictionary from names to entities; iterating it yields the values in
  the dictionary's order.  The fields \<open>method\<close>, \<open>event\<close> and \<open>error\<close> hold that dictionary.
\<close>

record 'ty ContractABI =
  abi_fallback :: "Fallback option"
  abi_receive :: "Receive option"
  abi_constructor :: "'ty Constructor"
  abi_method :: "(string \<times> 'ty Method) list"
  abi_event :: "(string \<times> 'ty Event) list"
  abi_error :: "(string \<times> 'ty Error) list"
  abi_error_by_selector :: "(bytes \<times> 'ty Error) list"

definition ContractABI_init ::
  "('ty, 'v) abi_codec \<Rightarrow> 'ty Constructor option \<Rightarrow> Fallback option \<Rightarrow> Receive option \<Rightarrow>
   'ty Method list option \<Rightarrow> 'ty Event list option \<Rightarrow> 'ty Error list option \<Rightarrow>
   py_error + 'ty ContractABI" where
  "ContractABI_init c constructor fallback receive methods events errors =
     (case (case constructor of
              None \<Rightarrow> Constructor_init (Sequence []) False
            | Some k \<Rightarrow> Inr k) of
        Inl e \<Rightarrow> Inl e
      | Inr constructor' \<Rightarrow>
          (let method = py_dict (map (\<lambda>m. (m_name m, m)) (or_empty methods));
               event = py_dict (map (\<lambda>ev. (e_name ev, ev)) (or_empty events));
               error = py_dict (map (\<lambda>err. (err_name err, err)) (or_empty errors))
           in Inr \<lparr>abi_fallback = fallback, abi_receive = receive,
                   abi_constructor = constructor',
                   abi_method = method, abi_event = event, abi_error = error,
                   abi_error_by_selector =
                     py_dict (map (\<lambda>err. (Error_selector c err, err))
                                  ([PANIC_ERROR c, LEGACY_ERROR c] @ map snd error))\<rparr>))"

text \<open>
  The local variables of \<open>ContractABI.from_json\<close>, and the body of its loop for one entry.
  The three dictionaries are keyed by the JSON value under \<open>"name"\<close>.
\<close>

record 'ty declarations =
  d_constructor :: "'ty Constructor option"
  d_fallback :: "Fallback option"
  d_receive :: "Receive option"
  d_methods :: "(json \<times> 'ty Method) list"
  d_events :: "(json \<times> 'ty Event) list"
  d_errors :: "(json \<times> 'ty Error) list"

definition no_declarations :: "'ty declarations" where
  "no_declarations =
     \<lparr>d_constructor = None, d_fallback = None, d_receive = None,
      d_methods = [], d_events = [], d_errors = []\<rparr>"

definition more_than_one :: "json \<Rightarrow> string" where
  "more_than_one name = ''JSON ABI contains more than one declarations of `'' @ py_str name @ ''`''"

definition from_json_entry ::
  "('ty, 'v) abi_codec \<Rightarrow> 'ty declarations \<Rightarrow> json_entry \<Rightarrow> py_error + 'ty declarations" where
  "from_json_entry c st entry =
     (case getitem entry ''type'' of
        Inl e \<Rightarrow> Inl e
      | Inr tp \<Rightarrow>
          if tp = JStr ''constructor'' then
            (if d_constructor st \<noteq> None
             then Inl (ValueError ''JSON ABI contains more than one constructor declarations'')
             else case Constructor_from_json c entry of
                    Inl e \<Rightarrow> Inl e
                  | Inr k \<Rightarrow> Inr (st\<lparr>d_constructor := Some k\<rparr>))
          else if tp = JStr ''function'' then
            (case getitem entry ''name'' of
               Inl e \<Rightarrow> Inl e
             | Inr name \<Rightarrow>
                 if \<not> json_hashable name then Inl (TypeError ''unhashable type'')
                 else if name \<in> fst ` set (d_methods st)
                 then Inl (ValueError (more_than_one name))
                 else case Method_from_json c entry of
                        Inl e \<Rightarrow> Inl e
                      | Inr m \<Rightarrow> Inr (st\<lparr>d_methods := AList.update name m (d_methods st)\<rparr>))
          else if tp = JStr ''fallback'' then
            (if d_fallback st \<noteq> None
             then Inl (ValueError ''JSON ABI contains more than one fallback declarations'')
             else case Fallback_from_json entry of
                    Inl e \<Rightarrow> Inl e
                  | Inr f \<Rightarrow> Inr (st\<lparr>d_fallback := Some f\<rparr>))
          else if tp = JStr ''receive'' then
            (if d_receive st \<noteq> None
             then Inl (ValueError ''JSON ABI contains more than one receive method declarations'')
             else case Receive_from_json entry of
                    Inl e \<Rightarrow> Inl e
                  | Inr r \<Rightarrow> Inr (st\<lparr>d_receive := Some r\<rparr>))
          else if tp = JStr ''event'' then
            (case getitem entry ''name'' of
               Inl e \<Rightarrow> Inl e
             | Inr name \<Rightarrow>
                 if \<not> json_hashable name then Inl (TypeError ''unhashable type'')
                 else if name \<in> fst ` set (d_events st)
                 then Inl (ValueError (more_than_one name))
                 else case Event_from_json c entry of
                        Inl e \<Rightarrow> Inl e
                      | Inr ev \<Rightarrow> Inr (st\<lparr>d_events := AList.update name ev (d_events st)\<rparr>))
          else if tp = JStr ''error'' then
            (case getitem entry ''name'' of
               Inl e \<Rightarrow> Inl e
             | Inr name \<Rightarrow>
                 if \<not> json_hashable name then Inl (TypeError ''unhashable type'')
                 else if name \<in> fst ` set (d_errors st)
                 then Inl (ValueError (more_than_one name))
                 else case Error_from_json c entry of
                        Inl e \<Rightarrow> Inl e
                      | Inr err \<Rightarrow> Inr (st\<lparr>d_errors := AList.update name err (d_errors st)\<rparr>))
          else Inl (ValueError (''Unknown ABI entry type: '' @ py_str tp)))"

fun from_json_loop ::
  "('ty, 'v) abi_codec \<Rightarrow> 'ty declarations \<Rightarrow> json_entry list \<Rightarrow> py_error + 'ty declarations" where
  "from_json_loop c st [] = Inr st"
| "from_json_loop c st (entry # json_abi) =
     (case from_json_entry c st entry of
        Inl e \<Rightarrow> Inl e
      | Inr st' \<Rightarrow> from_json_loop c st' json_abi)"

definition ContractABI_from_json ::
  "('ty, 'v) abi_codec \<Rightarrow> json_entry list \<Rightarrow> py_error + 'ty ContractABI" where
  "ContractABI_from_json c json_abi =
     (case from_json_loop c no_declarations json_abi of
        Inl e \<Rightarrow> Inl e
      | Inr st \<Rightarrow>
          ContractABI_init c (d_constructor st) (d_fallback st) (d_receive st)
            (Some (map snd (d_methods st))) (Some (map snd (d_events st)))
            (Some (map snd (d_errors st))))"

definition resolve_error ::
  "('ty, 'v) abi_codec \<Rightarrow> 'ty ContractABI \<Rightarrow> bytes \<Rightarrow>
   py_error + ('ty Error \<times> (string \<times> 'v) list)" where
  "resolve_error c abi error_data =
     (if length error_data < 4
      then Inl (ValueError ''Error data too short to contain a selector'')
      else
        (let selector = take 4 error_data; data = drop 4 error_data in
         case map_of (abi_error_by_selector abi) selector of
           Some error \<Rightarrow>
             (case Error_decode_fields c error data of
                Inl e \<Rightarrow> Inl e
              | Inr decoded \<Rightarrow> Inr (error, decoded))
         | None \<Rightarrow>
             Inl (UnknownError (''Could not find an error with selector '' @ bytes_hex selector
                                @ '' in the ABI''))))"

section \<open>A small codec, to run the definitions on concrete inputs\<close>

text \<open>
  The theorems below hold for every codec.  To evaluate them on concrete inputs the
  codec parameter is instantiated with the following one: three value types, head/tail
  decoding of 32-byte words, and big-endian topics.  Its \<open>sample_keccak\<close> is a placeholder
  for Keccak-256 (it pads or cuts its input to 32 bytes), so two hashes below are equal
  only where the hashed byte strings share their first 32 bytes; no statement about a
  collision relies on it, the colliding inputs used below are equal byte strings.
\<close>

datatype sample_type = TUint nat | TAddress | TString

datatype sample_value = VInt int | VStr string | VNone

definition be_nat :: "bytes \<Rightarrow> nat" where
  "be_nat bs = foldl (\<lambda>a b. a * 256 + unat b) 0 bs"

fun nat_be :: "nat \<Rightarrow> nat \<Rightarrow> bytes" where
  "nat_be 0 n = []"
| "nat_be (Suc w) n = nat_be w (n div 256) @ [of_nat (n mod 256)]"

definition sample_keccak :: "bytes \<Rightarrow> bytes" where
  "sample_keccak bs = take 32 (bs @ replicate 32 0)"

definition sample_canonical_form :: "sample_type \<Rightarrow> string" where
  "sample_canonical_form tp =
     (case tp of
        TUint n \<Rightarrow> ''uint'' @ str_nat n
      | TAddress \<Rightarrow> ''address''
      | TString \<Rightarrow> ''string'')"

definition sample_decode_one :: "bytes \<Rightarrow> nat \<times> sample_type \<Rightarrow> py_error + sample_value" where
  "sample_decode_one data p =
     (case p of (i, tp) \<Rightarrow>
        (let head = take 32 (drop (32 * i) data) in
         if length head < 32 then Inl (ValueError ''not enough data'')
         else
           case tp of
             TString \<Rightarrow>
               (let off = be_nat head; len_word = take 32 (drop off data) in
                if length len_word < 32 then Inl (ValueError ''not enough data'')
                else
                  (let n = be_nat len_word; s = take n (drop (off + 32) data) in
                   if length s < n then Inl (ValueError ''not enough data'')
                   else Inr (VStr (map (\<lambda>b. char_of (unat b)) s))))
           | _ \<Rightarrow> Inr (VInt (int (be_nat head)))))"

definition sample_decode_args :: "sample_type list \<Rightarrow> bytes \<Rightarrow> py_error + sample_value list" where
  "sample_decode_args tps data = mapM (sample_decode_one data) (zip [0..<length tps] tps)"

definition sample_encode_to_topic :: "sample_type \<Rightarrow> sample_value \<Rightarrow> py_error + bytes" where
  "sample_encode_to_topic tp v =
     (case (tp, v) of
        (TUint n, VInt i) \<Rightarrow>
          if 0 \<le> i \<and> i < 2 ^ n then Inr (nat_be 32 (nat i))
          else Inl (ValueError ''value out of range'')
      | (TAddress, VInt i) \<Rightarrow>
          if 0 \<le> i \<and> i < 2 ^ 160 then Inr (nat_be 32 (nat i))
          else Inl (ValueError ''value out of range'')
      | (TString, VStr s) \<Rightarrow> Inr (sample_keccak (str_encode s))
      | _ \<Rightarrow> Inl (TypeError ''value does not fit the type''))"

definition sample_decode_from_topic :: "sample_type \<Rightarrow> bytes \<Rightarrow> py_error + sample_value" where
  "sample_decode_from_topic tp bs =
     (case tp of TString \<Rightarrow> Inr VNone | _ \<Rightarrow> Inr (VInt (int (be_nat bs))))"

definition sample_dispatch_type :: "json \<Rightarrow> py_error + sample_type" where
  "sample_dispatch_type j =
     (case json_subscript j ''type'' of
        Inl e \<Rightarrow> Inl e
      | Inr t \<Rightarrow>
          if t = JStr ''uint256'' then Inr (TUint 256)
          else if t = JStr ''address'' then Inr TAddress
          else if t = JStr ''string'' then Inr TString
          else Inl (ValueError ''unknown type''))"

definition sample_named_type :: "json \<Rightarrow> py_error + (string \<times> sample_type)" where
  "sample_named_type j =
     (case json_subscript j ''name'' of
        Inl e \<Rightarrow> Inl e
      | Inr name_json \<Rightarrow>
          (case expect_str name_json of
             Inl e \<Rightarrow> Inl e
           | Inr name \<Rightarrow>
               (case sample_dispatch_type j of
                  Inl e \<Rightarrow> Inl e
                | Inr tp \<Rightarrow> Inr (name, tp))))"

definition sample_dispatch_types :: "json \<Rightarrow> py_error + sample_type parameters" where
  "sample_dispatch_types j =
     (case json_iter j of
        Inl e \<Rightarrow> Inl e
      | Inr entries \<Rightarrow>
          (case mapM (\<lambda>entry. json_subscript entry ''name'') entries of
             Inl e \<Rightarrow> Inl e
           | Inr names \<Rightarrow>
               if names \<noteq> [] \<and> list_all (\<lambda>n. n = JStr []) names
               then (case mapM sample_dispatch_type entries of
                       Inl e \<Rightarrow> Inl e
                     | Inr tps \<Rightarrow> Inr (Sequence tps))
               else if list_ex (\<lambda>n. n = JStr []) names
               then Inl (ValueError ''Arguments must be either all named or all unnamed'')
               else if \<not> distinct names
               then Inl (ValueError ''All ABI entries must have distinct names'')
               else (case mapM sample_named_type entries of
                       Inl e \<Rightarrow> Inl e
                     | Inr kvs \<Rightarrow> Inr (Mapping (py_dict kvs)))))"

definition sample_codec :: "(sample_type, sample_value) abi_codec" where
  "sample_codec =
     \<lparr>keccak = sample_keccak,
      canonical_form = sample_canonical_form,
      decode_args = sample_decode_args,
      encode_to_topic = sample_encode_to_topic,
      decode_from_topic = sample_decode_from_topic,
      dispatch_type = sample_dispatch_type,
      dispatch_types = sample_dispatch_types,
      abi_uint256 = TUint 256,
      abi_string = TString\<rparr>"

text \<open>Contracts to evaluate \<open>resolve_error\<close> on: each declares one custom error.\<close>

definition sample_abi :: "sample_type ContractABI" where
  "sample_abi =
     projr (ContractABI_init sample_codec None None None None None
              (Some [projr (Error_init ''Unauthorized'' [(''account'', TAddress)])]))"

definition panic_shadow_abi :: "sample_type ContractABI" where
  "panic_shadow_abi =
     projr (ContractABI_init sample_codec None None None None None
              (Some [projr (Error_init ''Panic'' [(''x'', TUint 256)])]))"

definition legacy_shadow_abi :: "sample_type ContractABI" where
  "legacy_shadow_abi =
     projr (ContractABI_init sample_codec None None None None None
              (Some [projr (Error_init ''Error'' [(''reason'', TString)])]))"

text \<open>
  Two events to evaluate on: the non-anonymous
  \<open>Event("Transfer", {from: address indexed, to: address indexed, value: uint256})\<close>, whose
  field \<open>from\<close> is a Python keyword and becomes the parameter \<open>from_\<close>, and an anonymous
  event with one indexed field.
\<close>

definition transfer_event :: "sample_type Event" where
  "transfer_event =
     projr (Event_init ''Transfer''
              [(''from'', TAddress), (''to'', TAddress), (''value'', TUint 256)]
              {|''from'', ''to''|} False)"

definition ping_event :: "sample_type Event" where
  "ping_event =
     projr (Event_init ''Ping'' [(''seq'', TUint 256), (''note'', TString)] {|''seq''|} True)"

text \<open>Five named fields, to declare events with three, four or five indexed fields.\<close>

definition five_fields :: "(string \<times> sample_type) list" where
  "five_fields =
     [(''a'', TAddress), (''b'', TAddress), (''c'', TAddress), (''d'', TAddress),
      (''e'', TUint 256)]"

text \<open>
  The JSON entry of a view function with one input and one unnamed \<open>uint256\<close> output.
\<close>

definition get_state_entry :: json_entry where
  "get_state_entry =
     [(''type'', JStr ''function''),
      (''name'', JStr ''getState''),
      (''inputs'', JList [JDict [(''name'', JStr ''x''), (''type'', JStr ''uint256'')]]),
      (''stateMutability'', JStr ''view''),
      (''outputs'', JList [JDict [(''name'', JStr ''''), (''type'', JStr ''uint256'')]])]"

text \<open>
  A JSON ABI with a function and an event but no constructor, and two constructor entries.
\<close>

definition token_json_abi :: "json_entry list" where
  "token_json_abi =
     [[(''type'', JStr ''function''),
       (''name'', JStr ''balanceOf''),
       (''inputs'', JList [JDict [(''name'', JStr ''owner''), (''type'', JStr ''address'')]]),
       (''stateMutability'', JStr ''view''),
       (''outputs'', JList [JDict [(''name'', JStr ''''), (''type'', JStr ''uint256'')]])],
      [(''type'', JStr ''event''),
       (''name'', JStr ''Transfer''),
       (''anonymous'', JBool False),
       (''inputs'', JList [JDict [(''name'', JStr ''from''), (''type'', JStr ''address''),
                                  (''indexed'', JBool True)],
                           JDict [(''name'', JStr ''to''), (''type'', JStr ''address''),
                                  (''indexed'', JBool True)],
                           JDict [(''name'', JStr ''value''), (''type'', JStr ''uint256''),
                                  (''indexed'', JBool False)]])]]"

definition constructor_entry :: json_entry where
  "constructor_entry =
     [(''type'', JStr ''constructor''),
      (''inputs'', JList [JDict [(''name'', JStr ''supply''), (''type'', JStr ''uint256'')]]),
      (''stateMutability'', JStr ''nonpayable'')]"

definition payable_constructor_entry :: json_entry where
  "payable_constructor_entry =
     [(''type'', JStr ''constructor''),
      (''inputs'', JList []),
      (''stateMutability'', JStr ''payable'')]"


section \<open>Dictionaries\<close>

lemma py_dict_foldl_map_of:
  "map_of (foldl (\<lambda>d (k, v). AList.update k v d) d kvs) k =
     (case map_of (rev kvs) k of None \<Rightarrow> map_of d k | Some v \<Rightarrow> Some v)"
  by (induction kvs arbitrary: d) (auto simp: update_conv' split: option.splits)

text \<open>Looking a key up in a dictionary built from pairs finds the pair stored last.\<close>

lemma map_of_py_dict: "map_of (py_dict kvs) k = map_of (rev kvs) k"
  by (simp add: py_dict_def py_dict_foldl_map_of split: option.splits)

lemma keys_py_dict: "fst ` set (py_dict kvs) = fst ` set kvs"
proof -
  have "map_of (py_dict kvs) = map_of (rev kvs)"
    by (rule ext) (rule map_of_py_dict)
  then have "dom (map_of (py_dict kvs)) = dom (map_of (rev kvs))"
    by simp
  then show ?thesis
    by (simp add: dom_map_of_conv_image_fst)
qed

lemma py_dict_foldl_distinct:
  "distinct (map fst d) \<Longrightarrow> distinct (map fst (foldl (\<lambda>d (k, v). AList.update k v d) d kvs))"
  by (induction kvs arbitrary: d) (auto simp: distinct_update)

lemma distinct_py_dict: "distinct (map fst (py_dict kvs))"
  by (simp add: py_dict_def py_dict_foldl_distinct)

lemma map_of_rev_tagged:
  "map_of (rev (map (\<lambda>e. (f e, e)) xs)) k =
     (if filter (\<lambda>e. f e = k) xs = [] then None else Some (last (filter (\<lambda>e. f e = k) xs)))"
  by (induction xs rule: rev_induct) auto

lemma index_lookup:
  "map_of (py_dict (map (\<lambda>e. (f e, e)) xs)) k =
     (if filter (\<lambda>e. f e = k) xs = [] then None else Some (last (filter (\<lambda>e. f e = k) xs)))"
  by (simp only: map_of_py_dict map_of_rev_tagged)


section \<open>Constructing a \<open>ContractABI\<close>\<close>

text \<open>The two module constants are what their constructor calls return.\<close>

lemma PANIC_ERROR_init: "Error_init ''Panic'' [(''code'', abi_uint256 c)] = Inr (PANIC_ERROR c)"
  by (simp add: Error_init_def Signature_init_def inspect_Signature_def inspect_Parameter_def
        make_name_safe_def iskeyword_def kwlist_def isidentifier_def id_start_def
        id_continue_def PANIC_ERROR_def)

lemma LEGACY_ERROR_init:
  "Error_init ''Error'' [(''message'', abi_string c)] = Inr (LEGACY_ERROR c)"
  by (simp add: Error_init_def Signature_init_def inspect_Signature_def inspect_Parameter_def
        make_name_safe_def iskeyword_def kwlist_def isidentifier_def id_start_def
        id_continue_def LEGACY_ERROR_def)

lemma Constructor_default:
  "Constructor_init (Sequence []) False =
     Inr \<lparr>c_inputs = \<lparr>s_signature = [], s_types = [], s_named_parameters = False\<rparr>,
          c_payable = False\<rparr>"
  by (simp add: Constructor_init_def Signature_init_def inspect_Signature_def)

text \<open>\<open>ContractABI.__init__\<close> never raises.\<close>

lemma ContractABI_init_Inr:
  "ContractABI_init c k f r ms es errs =
     Inr \<lparr>abi_fallback = f, abi_receive = r,
          abi_constructor =
            (case k of
               None \<Rightarrow> \<lparr>c_inputs = \<lparr>s_signature = [], s_types = [], s_named_parameters = False\<rparr>,
                         c_payable = False\<rparr>
             | Some k' \<Rightarrow> k'),
          abi_method = py_dict (map (\<lambda>m. (m_name m, m)) (or_empty ms)),
          abi_event = py_dict (map (\<lambda>ev. (e_name ev, ev)) (or_empty es)),
          abi_error = py_dict (map (\<lambda>err. (err_name err, err)) (or_empty errs)),
          abi_error_by_selector =
            py_dict (map (\<lambda>err. (Error_selector c err, err))
                         ([PANIC_ERROR c, LEGACY_ERROR c]
                          @ map snd (py_dict (map (\<lambda>err. (err_name err, err)) (or_empty errs)))))\<rparr>"
  by (cases k) (simp_all add: ContractABI_init_def Constructor_default Let_def)

lemma ContractABI_init_index:
  assumes "ContractABI_init c k f r ms es errs = Inr abi"
  shows "abi_error_by_selector abi =
           py_dict (map (\<lambda>err. (Error_selector c err, err))
                        ([PANIC_ERROR c, LEGACY_ERROR c] @ map snd (abi_error abi)))"
  using assms by (auto simp: ContractABI_init_Inr)


section \<open>Resolving errors\<close>

text \<open>
  Claim C1, as amended.  For every \<open>ContractABI\<close>, also one constructed without declared
  errors, the selectors of the built-in errors \<open>Panic(uint256 code)\<close> and
  \<open>Error(string message)\<close> are keys of the selector-to-error index.  The key of
  \<open>Error\<close> holds \<open>LEGACY_ERROR\<close> when no declared error has that selector.  The key of
  \<open>Panic\<close> holds \<open>PANIC_ERROR\<close> when no declared error has that selector and the selector
  of \<open>Error(string)\<close> differs from it; then \<open>resolve_error\<close>, applied to at least four bytes
  whose first four are the Panic selector and whose rest the codec decodes as one
  \<open>uint256\<close> value \<open>v\<close>, returns the pair of \<open>PANIC_ERROR\<close> and \<open>{"code": v}\<close>.
\<close>

theorem builtin_errors_registered:
  assumes init: "ContractABI_init c k f r ms es errs = Inr abi"
  shows "Error_selector c (PANIC_ERROR c) \<in> fst ` set (abi_error_by_selector abi)
       \<and> Error_selector c (LEGACY_ERROR c) \<in> fst ` set (abi_error_by_selector abi)
       \<and> ((\<forall>d \<in> snd ` set (abi_error abi).
              Error_selector c d \<noteq> Error_selector c (LEGACY_ERROR c)) \<longrightarrow>
            map_of (abi_error_by_selector abi) (Error_selector c (LEGACY_ERROR c))
              = Some (LEGACY_ERROR c))
       \<and> ((\<forall>d \<in> snd ` set (abi_error abi).
              Error_selector c d \<noteq> Error_selector c (PANIC_ERROR c))
            \<and> Error_selector c (LEGACY_ERROR c) \<noteq> Error_selector c (PANIC_ERROR c) \<longrightarrow>
            map_of (abi_error_by_selector abi) (Error_selector c (PANIC_ERROR c))
              = Some (PANIC_ERROR c)
            \<and> (\<forall>b v. 4 \<le> length b \<and> take 4 b = Error_selector c (PANIC_ERROR c)
                      \<and> decode_args c [abi_uint256 c] (drop 4 b) = Inr [v] \<longrightarrow>
                  resolve_error c abi b = Inr (PANIC_ERROR c, [(''code'', v)])))"
proof -
  define ds where "ds = map snd (abi_error abi)"
  have idx: "abi_error_by_selector abi =
               py_dict (map (\<lambda>err. (Error_selector c err, err))
                            ([PANIC_ERROR c, LEGACY_ERROR c] @ ds))"
    using ContractABI_init_index[OF init] by (simp add: ds_def)
  have keys: "fst ` set (abi_error_by_selector abi)
                = Error_selector c ` set ([PANIC_ERROR c, LEGACY_ERROR c] @ ds)"
    unfolding idx keys_py_dict by (simp add: image_image)
  have none: "filter (\<lambda>d. Error_selector c d = s) ds = []"
    if "\<forall>d \<in> snd ` set (abi_error abi). Error_selector c d \<noteq> s" for s
    using that by (auto simp: ds_def filter_empty_conv)
  have legacy: "map_of (abi_error_by_selector abi) (Error_selector c (LEGACY_ERROR c))
                  = Some (LEGACY_ERROR c)"
    if "\<forall>d \<in> snd ` set (abi_error abi). Error_selector c d \<noteq> Error_selector c (LEGACY_ERROR c)"
    unfolding idx index_lookup using none[OF that] by simp
  have panic: "map_of (abi_error_by_selector abi) (Error_selector c (PANIC_ERROR c))
                  = Some (PANIC_ERROR c)"
    if "\<forall>d \<in> snd ` set (abi_error abi). Error_selector c d \<noteq> Error_selector c (PANIC_ERROR c)"
       "Error_selector c (LEGACY_ERROR c) \<noteq> Error_selector c (PANIC_ERROR c)"
    unfolding idx index_lookup using none[OF that(1)] that(2) by simp
  have res: "resolve_error c abi b = Inr (PANIC_ERROR c, [(''code'', v)])"
    if "map_of (abi_error_by_selector abi) (Error_selector c (PANIC_ERROR c)) = Some (PANIC_ERROR c)"
       "4 \<le> length b" "take 4 b = Error_selector c (PANIC_ERROR c)"
       "decode_args c [abi_uint256 c] (drop 4 b) = Inr [v]" for b v
    using that
    by (simp add: resolve_error_def Error_decode_fields_def Signature_decode_into_dict_def
          Signature_decode_into_tuple_def PANIC_ERROR_def py_dict_def Let_def)
  show ?thesis
    using keys legacy panic res by auto
qed

text \<open>
  The theorem at \<open>sample_abi\<close>, whose one declared error \<open>Unauthorized(address)\<close> has another
  selector, on the Panic selector followed by the 32-byte word 7.
\<close>

theorem builtin_errors_registered_witness:
  "ContractABI_init sample_codec None None None None None
       (Some [projr (Error_init ''Unauthorized'' [(''account'', TAddress)])]) = Inr sample_abi
   \<and> list_all (\<lambda>d. Error_selector sample_codec d
                        \<noteq> Error_selector sample_codec (PANIC_ERROR sample_codec))
        (map snd (abi_error sample_abi))
   \<and> Error_selector sample_codec (LEGACY_ERROR sample_codec)
        \<noteq> Error_selector sample_codec (PANIC_ERROR sample_codec)
   \<and> 4 \<le> length ([0x50, 0x61, 0x6e, 0x69] @ replicate 31 0 @ [7 :: byte])
   \<and> take 4 ([0x50, 0x61, 0x6e, 0x69] @ replicate 31 0 @ [7])
        = Error_selector sample_codec (PANIC_ERROR sample_codec)
   \<and> decode_args sample_codec [abi_uint256 sample_codec]
        (drop 4 ([0x50, 0x61, 0x6e, 0x69] @ replicate 31 0 @ [7])) = Inr [VInt 7]
   \<and> resolve_error sample_codec sample_abi ([0x50, 0x61, 0x6e, 0x69] @ replicate 31 0 @ [7])
        = Inr (PANIC_ERROR sample_codec, [(''code'', VInt 7)])"
proof -
  have h0: "ContractABI_init sample_codec None None None None None
       (Some [projr (Error_init ''Unauthorized'' [(''account'', TAddress)])]) = Inr sample_abi"
    by (simp add: sample_abi_def ContractABI_init_Inr)
  have h1': "list_all (\<lambda>d. Error_selector sample_codec d
                        \<noteq> Error_selector sample_codec (PANIC_ERROR sample_codec))
        (map snd (abi_error sample_abi))"
    by code_simp
  then have h1: "\<forall>d \<in> snd ` set (abi_error sample_abi).
         Error_selector sample_codec d \<noteq> Error_selector sample_codec (PANIC_ERROR sample_codec)"
    by (simp add: list_all_iff)
  have h2: "Error_selector sample_codec (LEGACY_ERROR sample_codec)
        \<noteq> Error_selector sample_codec (PANIC_ERROR sample_codec)"
    by code_simp
  have h3: "4 \<le> length ([0x50, 0x61, 0x6e, 0x69] @ replicate 31 0 @ [7 :: byte])"
    by simp
  have h4: "take 4 ([0x50, 0x61, 0x6e, 0x69] @ replicate 31 0 @ [7])
        = Error_selector sample_codec (PANIC_ERROR sample_codec)"
    by code_simp
  have h5: "decode_args sample_codec [abi_uint256 sample_codec]
        (drop 4 ([0x50, 0x61, 0x6e, 0x69] @ replicate 31 0 @ [7])) = Inr [VInt 7]"
    by code_simp
  from builtin_errors_registered[OF h0] h1 h2 h3 h4 h5
  have "resolve_error sample_codec sample_abi ([0x50, 0x61, 0x6e, 0x69] @ replicate 31 0 @ [7])
        = Inr (PANIC_ERROR sample_codec, [(''code'', VInt 7)])"
    by blast
  with h0 h1' h2 h3 h4 h5 show ?thesis
    by blast
qed

text \<open>
  Claim C1 as it was stated fails for a contract that declares
  \<open>Error("Panic", {"x": uint256})\<close>.  The declared error has the name and the canonical
  form of the built-in one, hence hashes the same bytes and has the same selector; it is
  registered after \<open>PANIC_ERROR\<close> and replaces it under that selector.  \<open>resolve_error\<close> on
  the Panic selector and the word 7 returns the declared error and \<open>{"x": 7}\<close>, not
  \<open>PANIC_ERROR\<close> and \<open>{"code": 7}\<close>.
\<close>

theorem builtin_panic_counterexample:
  "Error_init ''Panic'' [(''x'', TUint 256)]
      = Inr \<lparr>err_name = ''Panic'',
             err_fields = \<lparr>s_signature = [(''x'', POSITIONAL_OR_KEYWORD)],
                           s_types = [TUint 256], s_named_parameters = True\<rparr>\<rparr>
   \<and> ContractABI_init sample_codec None None None None None
        (Some [\<lparr>err_name = ''Panic'',
                err_fields = \<lparr>s_signature = [(''x'', POSITIONAL_OR_KEYWORD)],
                              s_types = [TUint 256], s_named_parameters = True\<rparr>\<rparr>])
      = Inr panic_shadow_abi
   \<and> 4 \<le> length ([0x50, 0x61, 0x6e, 0x69] @ replicate 31 0 @ [7 :: byte])
   \<and> take 4 ([0x50, 0x61, 0x6e, 0x69] @ replicate 31 0 @ [7])
        = Error_selector sample_codec (PANIC_ERROR sample_codec)
   \<and> resolve_error sample_codec panic_shadow_abi ([0x50, 0x61, 0x6e, 0x69] @ replicate 31 0 @ [7])
        \<noteq> Inr (PANIC_ERROR sample_codec, [(''code'', VInt 7)])
   \<and> resolve_error sample_codec panic_shadow_abi ([0x50, 0x61, 0x6e, 0x69] @ replicate 31 0 @ [7])
        = Inr (\<lparr>err_name = ''Panic'',
                 err_fields = \<lparr>s_signature = [(''x'', POSITIONAL_OR_KEYWORD)],
                               s_types = [TUint 256], s_named_parameters = True\<rparr>\<rparr>,
               [(''x'', VInt 7)])"
  by code_simp

text \<open>
  The collision does not depend on the hash: for every codec, an error with the name and
  the field types of a built-in error has the selector of the built-in error.
\<close>

lemma same_name_and_types_same_selector:
  "err_name d = err_name b \<Longrightarrow> s_types (err_fields d) = s_types (err_fields b) \<Longrightarrow>
   Error_selector c d = Error_selector c b"
  by (simp add: Error_selector_def Signature_canonical_form_def)

text \<open>
  Claim C2.  For every \<open>ContractABI\<close> and every byte string \<open>b\<close>: with fewer than four
  bytes \<open>resolve_error\<close> fails with the length error, whatever the index holds; with at
  least four bytes whose first four are no key of the index it fails with an
  \<open>UnknownError\<close> whose message carries the selector in hexadecimal; otherwise it returns
  the error stored under the first four bytes together with the remaining bytes decoded
  by that error's \<open>Signature\<close> (or fails as that decoding fails).
\<close>

theorem resolve_error_cases:
  "(length b < 4 \<longrightarrow>
      resolve_error c abi b = Inl (ValueError ''Error data too short to contain a selector''))
   \<and> (4 \<le> length b \<and> take 4 b \<notin> fst ` set (abi_error_by_selector abi) \<longrightarrow>
      resolve_error c abi b =
        Inl (UnknownError (''Could not find an error with selector '' @ bytes_hex (take 4 b)
                           @ '' in the ABI'')))
   \<and> (4 \<le> length b \<and> map_of (abi_error_by_selector abi) (take 4 b) = Some err \<longrightarrow>
      resolve_error c abi b =
        (case Signature_decode_into_dict c (err_fields err) (drop 4 b) of
           Inl e \<Rightarrow> Inl e
         | Inr decoded \<Rightarrow> Inr (err, decoded)))"
  by (auto simp: resolve_error_def Error_decode_fields_def Let_def map_of_eq_None_iff
           split: option.splits dest: map_of_SomeD intro: rev_image_eqI)

text \<open>
  The three cases at \<open>sample_abi\<close>: three bytes; four bytes \<open>50 61 6e 6a\<close> that are no
  selector of the contract, followed by one more byte; and the selector of the declared
  error \<open>Unauthorized(address account)\<close> followed by the word 5.
\<close>

theorem resolve_error_cases_witness:
  "length [0x50, 0x61, 0x6e :: byte] < 4
   \<and> resolve_error sample_codec sample_abi [0x50, 0x61, 0x6e]
        = Inl (ValueError ''Error data too short to contain a selector'')
   \<and> 4 \<le> length [0x50, 0x61, 0x6e, 0x6a, 5 :: byte]
   \<and> take 4 [0x50, 0x61, 0x6e, 0x6a, 5] \<notin> fst ` set (abi_error_by_selector sample_abi)
   \<and> resolve_error sample_codec sample_abi [0x50, 0x61, 0x6e, 0x6a, 5]
        = Inl (UnknownError ''Could not find an error with selector 50616e6a in the ABI'')
   \<and> 4 \<le> length ([0x55, 0x6e, 0x61, 0x75] @ replicate 31 0 @ [5 :: byte])
   \<and> map_of (abi_error_by_selector sample_abi)
        (take 4 ([0x55, 0x6e, 0x61, 0x75] @ replicate 31 0 @ [5]))
        = Some (projr (Error_init ''Unauthorized'' [(''account'', TAddress)]))
   \<and> resolve_error sample_codec sample_abi ([0x55, 0x6e, 0x61, 0x75] @ replicate 31 0 @ [5])
        = Inr (projr (Error_init ''Unauthorized'' [(''account'', TAddress)]),
               [(''account'', VInt 5)])"
proof -
  have a1: "length [0x50, 0x61, 0x6e :: byte] < 4"
    by simp
  have b1: "4 \<le> length [0x50, 0x61, 0x6e, 0x6a, 5 :: byte]"
    by simp
  have b2: "take 4 [0x50, 0x61, 0x6e, 0x6a, 5] \<notin> fst ` set (abi_error_by_selector sample_abi)"
    by code_simp
  have c1: "4 \<le> length ([0x55, 0x6e, 0x61, 0x75] @ replicate 31 0 @ [5 :: byte])"
    by simp
  have c2: "map_of (abi_error_by_selector sample_abi)
        (take 4 ([0x55, 0x6e, 0x61, 0x75] @ replicate 31 0 @ [5]))
        = Some (projr (Error_init ''Unauthorized'' [(''account'', TAddress)]))"
    by code_simp
  have c3: "(case Signature_decode_into_dict sample_codec
                    (err_fields (projr (Error_init ''Unauthorized'' [(''account'', TAddress)])))
                    (drop 4 ([0x55, 0x6e, 0x61, 0x75] @ replicate 31 0 @ [5])) of
               Inl e \<Rightarrow> Inl e
             | Inr decoded \<Rightarrow>
                 Inr (projr (Error_init ''Unauthorized'' [(''account'', TAddress)]), decoded))
            = Inr (projr (Error_init ''Unauthorized'' [(''account'', TAddress)]),
                   [(''account'', VInt 5)])"
    by code_simp
  have r1: "resolve_error sample_codec sample_abi [0x50, 0x61, 0x6e]
        = Inl (ValueError ''Error data too short to contain a selector'')"
    using resolve_error_cases[of "[0x50, 0x61, 0x6e]" sample_codec sample_abi] a1
    by blast
  have "bytes_hex (take 4 [0x50, 0x61, 0x6e, 0x6a, 5]) = ''50616e6a''"
    by code_simp
  then have r2: "resolve_error sample_codec sample_abi [0x50, 0x61, 0x6e, 0x6a, 5]
        = Inl (UnknownError ''Could not find an error with selector 50616e6a in the ABI'')"
    using resolve_error_cases[of "[0x50, 0x61, 0x6e, 0x6a, 5]" sample_codec sample_abi] b1 b2
    by simp
  have r3: "resolve_error sample_codec sample_abi ([0x55, 0x6e, 0x61, 0x75] @ replicate 31 0 @ [5])
        = Inr (projr (Error_init ''Unauthorized'' [(''account'', TAddress)]),
               [(''account'', VInt 5)])"
    using resolve_error_cases[of "[0x55, 0x6e, 0x61, 0x75] @ replicate 31 0 @ [5]"
            sample_codec sample_abi "projr (Error_init ''Unauthorized'' [(''account'', TAddress)])"]
          c1 c2 c3
    by simp
  from a1 r1 b1 b2 r2 c1 c2 r3 show ?thesis
    by blast
qed

text \<open>
  Claim C3, as amended.  For every \<open>ContractABI\<close> whose declared errors include one with
  the selector of a built-in error \<open>b\<close> (\<open>Panic\<close> or \<open>Error\<close>), the selector-to-error index
  resolves that selector to the error registered last under it, which is a declared
  error of the contract, the last one in the contract's order that has the selector
  (each registration replaces the entry under its selector); and \<open>resolve_error\<close> on that
  selector decodes against the signature of that declared error.
\<close>

theorem collision_last_registered_wins:
  assumes init: "ContractABI_init c k f r ms es errs = Inr abi"
      and b: "b = PANIC_ERROR c \<or> b = LEGACY_ERROR c"
      and coll: "\<exists>d \<in> snd ` set (abi_error abi). Error_selector c d = Error_selector c b"
      and w: "w = last (filter (\<lambda>d. Error_selector c d = Error_selector c b)
                               (map snd (abi_error abi)))"
  shows "w \<in> snd ` set (abi_error abi)
       \<and> Error_selector c w = Error_selector c b
       \<and> map_of (abi_error_by_selector abi) (Error_selector c b) = Some w
       \<and> (\<forall>data. length (Error_selector c b) = 4 \<longrightarrow>
             resolve_error c abi (Error_selector c b @ data) =
               (case Signature_decode_into_dict c (err_fields w) data of
                  Inl e \<Rightarrow> Inl e
                | Inr decoded \<Rightarrow> Inr (w, decoded)))"
proof -
  define s where "s = Error_selector c b"
  define ds where "ds = map snd (abi_error abi)"
  define hits where "hits = filter (\<lambda>d. Error_selector c d = s) ds"
  have w_last: "w = last hits"
    by (simp add: w hits_def ds_def s_def)
  from coll have ne: "hits \<noteq> []"
    by (auto simp: hits_def ds_def s_def filter_empty_conv)
  then have "w \<in> set hits"
    by (simp add: w_last)
  then have w_in: "w \<in> set ds" and w_sel: "Error_selector c w = s"
    by (auto simp: hits_def)
  have idx: "abi_error_by_selector abi =
               py_dict (map (\<lambda>err. (Error_selector c err, err))
                            ([PANIC_ERROR c, LEGACY_ERROR c] @ ds))"
    using ContractABI_init_index[OF init] by (simp add: ds_def)
  have "filter (\<lambda>d. Error_selector c d = s) ([PANIC_ERROR c, LEGACY_ERROR c] @ ds)
          = filter (\<lambda>d. Error_selector c d = s) [PANIC_ERROR c, LEGACY_ERROR c] @ hits"
    by (simp add: hits_def)
  with ne have look: "map_of (abi_error_by_selector abi) s = Some w"
    unfolding idx index_lookup by (simp add: w_last)
  have res: "resolve_error c abi (s @ data) =
               (case Signature_decode_into_dict c (err_fields w) data of
                  Inl e \<Rightarrow> Inl e
                | Inr decoded \<Rightarrow> Inr (w, decoded))" if "length s = 4" for data
    using that look by (simp add: resolve_error_def Error_decode_fields_def Let_def)
  show ?thesis
    using w_in w_sel look res
    unfolding ds_def s_def by auto
qed

text \<open>
  The theorem at \<open>legacy_shadow_abi\<close>, which declares \<open>Error("Error", {"reason": string})\<close>,
  with \<open>b\<close> the built-in \<open>Error(string message)\<close>, on the ABI encoding of the string "hi".
\<close>

theorem collision_last_registered_wins_witness:
  "ContractABI_init sample_codec None None None None None
       (Some [projr (Error_init ''Error'' [(''reason'', TString)])]) = Inr legacy_shadow_abi
   \<and> list_ex (\<lambda>d. Error_selector sample_codec d
                     = Error_selector sample_codec (LEGACY_ERROR sample_codec))
        (map snd (abi_error legacy_shadow_abi))
   \<and> projr (Error_init ''Error'' [(''reason'', TString)])
       = last (filter (\<lambda>d. Error_selector sample_codec d
                             = Error_selector sample_codec (LEGACY_ERROR sample_codec))
                      (map snd (abi_error legacy_shadow_abi)))
   \<and> length (Error_selector sample_codec (LEGACY_ERROR sample_codec)) = 4
   \<and> map_of (abi_error_by_selector legacy_shadow_abi)
        (Error_selector sample_codec (LEGACY_ERROR sample_codec))
       = Some (projr (Error_init ''Error'' [(''reason'', TString)]))
   \<and> resolve_error sample_codec legacy_shadow_abi
        (Error_selector sample_codec (LEGACY_ERROR sample_codec)
         @ replicate 31 0 @ [32] @ replicate 31 0 @ [2] @ [0x68, 0x69] @ replicate 30 0)
       = Inr (projr (Error_init ''Error'' [(''reason'', TString)]), [(''reason'', VStr ''hi'')])"
proof -
  have h0: "ContractABI_init sample_codec None None None None None
       (Some [projr (Error_init ''Error'' [(''reason'', TString)])]) = Inr legacy_shadow_abi"
    by (simp add: legacy_shadow_abi_def ContractABI_init_Inr)
  have h1': "list_ex (\<lambda>d. Error_selector sample_codec d
                     = Error_selector sample_codec (LEGACY_ERROR sample_codec))
        (map snd (abi_error legacy_shadow_abi))"
    by code_simp
  then have h1: "\<exists>d \<in> snd ` set (abi_error legacy_shadow_abi).
        Error_selector sample_codec d = Error_selector sample_codec (LEGACY_ERROR sample_codec)"
    by (simp add: list_ex_iff)
  have h2: "projr (Error_init ''Error'' [(''reason'', TString)])
       = last (filter (\<lambda>d. Error_selector sample_codec d
                             = Error_selector sample_codec (LEGACY_ERROR sample_codec))
                      (map snd (abi_error legacy_shadow_abi)))"
    by code_simp
  have h3: "length (Error_selector sample_codec (LEGACY_ERROR sample_codec)) = 4"
    by code_simp
  have ev: "(case Signature_decode_into_dict sample_codec
                    (err_fields (projr (Error_init ''Error'' [(''reason'', TString)])))
                    (replicate 31 0 @ [32] @ replicate 31 0 @ [2] @ [0x68, 0x69] @ replicate 30 0) of
               Inl e \<Rightarrow> Inl e
             | Inr decoded \<Rightarrow> Inr (projr (Error_init ''Error'' [(''reason'', TString)]), decoded))
            = Inr (projr (Error_init ''Error'' [(''reason'', TString)]), [(''reason'', VStr ''hi'')])"
    by code_simp
  note t = collision_last_registered_wins[OF h0 disjI2[OF refl] h1 h2]
  from t have look: "map_of (abi_error_by_selector legacy_shadow_abi)
        (Error_selector sample_codec (LEGACY_ERROR sample_codec))
       = Some (projr (Error_init ''Error'' [(''reason'', TString)]))"
    by blast
  from t h3 have "resolve_error sample_codec legacy_shadow_abi
        (Error_selector sample_codec (LEGACY_ERROR sample_codec)
         @ replicate 31 0 @ [32] @ replicate 31 0 @ [2] @ [0x68, 0x69] @ replicate 30 0)
       = (case Signature_decode_into_dict sample_codec
                    (err_fields (projr (Error_init ''Error'' [(''reason'', TString)])))
                    (replicate 31 0 @ [32] @ replicate 31 0 @ [2] @ [0x68, 0x69] @ replicate 30 0) of
               Inl e \<Rightarrow> Inl e
             | Inr decoded \<Rightarrow> Inr (projr (Error_init ''Error'' [(''reason'', TString)]), decoded))"
    by blast
  with ev have res: "resolve_error sample_codec legacy_shadow_abi
        (Error_selector sample_codec (LEGACY_ERROR sample_codec)
         @ replicate 31 0 @ [32] @ replicate 31 0 @ [2] @ [0x68, 0x69] @ replicate 30 0)
       = Inr (projr (Error_init ''Error'' [(''reason'', TString)]), [(''reason'', VStr ''hi'')])"
    by simp
  from h0 h1' h2 h3 look res show ?thesis
    by blast
qed

text \<open>
  Claim C3 as it was stated fails at the same contract: the index does not hold the
  built-in error, registered first, under the selector of \<open>Error(string)\<close>, but the declared
  error \<open>Error("Error", {"reason": string})\<close>, and \<open>resolve_error\<close> returns the declared
  error with the field \<open>reason\<close> of its signature, not \<open>message\<close>.
\<close>

theorem collision_first_registered_counterexample:
  "Error_init ''Error'' [(''reason'', TString)]
      = Inr \<lparr>err_name = ''Error'',
             err_fields = \<lparr>s_signature = [(''reason'', POSITIONAL_OR_KEYWORD)],
                           s_types = [TString], s_named_parameters = True\<rparr>\<rparr>
   \<and> ContractABI_init sample_codec None None None None None
        (Some [\<lparr>err_name = ''Error'',
                err_fields = \<lparr>s_signature = [(''reason'', POSITIONAL_OR_KEYWORD)],
                              s_types = [TString], s_named_parameters = True\<rparr>\<rparr>])
      = Inr legacy_shadow_abi
   \<and> map_of (abi_error legacy_shadow_abi) ''Error''
      = Some \<lparr>err_name = ''Error'',
               err_fields = \<lparr>s_signature = [(''reason'', POSITIONAL_OR_KEYWORD)],
                             s_types = [TString], s_named_parameters = True\<rparr>\<rparr>
   \<and> Error_selector sample_codec
        \<lparr>err_name = ''Error'',
         err_fields = \<lparr>s_signature = [(''reason'', POSITIONAL_OR_KEYWORD)],
                       s_types = [TString], s_named_parameters = True\<rparr>\<rparr>
       = Error_selector sample_codec (LEGACY_ERROR sample_codec)
   \<and> map_of (abi_error_by_selector legacy_shadow_abi)
        (Error_selector sample_codec (LEGACY_ERROR sample_codec))
       \<noteq> Some (LEGACY_ERROR sample_codec)
   \<and> resolve_error sample_codec legacy_shadow_abi
        (Error_selector sample_codec (LEGACY_ERROR sample_codec)
         @ replicate 31 0 @ [32] @ replicate 31 0 @ [2] @ [0x68, 0x69] @ replicate 30 0)
       = Inr (\<lparr>err_name = ''Error'',
                err_fields = \<lparr>s_signature = [(''reason'', POSITIONAL_OR_KEYWORD)],
                              s_types = [TString], s_named_parameters = True\<rparr>\<rparr>,
              [(''reason'', VStr ''hi'')])
   \<and> resolve_error sample_codec legacy_shadow_abi
        (Error_selector sample_codec (LEGACY_ERROR sample_codec)
         @ replicate 31 0 @ [32] @ replicate 31 0 @ [2] @ [0x68, 0x69] @ replicate 30 0)
       \<noteq> Inr (LEGACY_ERROR sample_codec, [(''message'', VStr ''hi'')])"
  by code_simp

section \<open>Event filters\<close>

text \<open>The \<open>while\<close> loop of \<open>encode_to_topics\<close> removes exactly the trailing \<open>None\<close> entries.\<close>

lemma pop_trailing_None_snoc:
  "pop_trailing_None (xs @ [x]) = (if x = None then pop_trailing_None xs else xs @ [x])"
  by (subst pop_trailing_None.simps) simp

lemma pop_trailing_None_Nil: "pop_trailing_None [] = []"
  by (subst pop_trailing_None.simps) simp

lemma pop_trailing_None_eq:
  "pop_trailing_None xs = rev (dropWhile (\<lambda>t. t = None) (rev xs))"
  by (induction xs rule: rev_induct) (simp_all add: pop_trailing_None_Nil pop_trailing_None_snoc)

lemma bind_keywords_no_kwargs: "bind_keywords params [] arguments = Inr (arguments, [])"
  by (induction params) auto

lemma bind_partial_no_arguments: "bind_partial sg [] [] = Inr []"
  by (simp add: bind_partial_def bind_keywords_no_kwargs)

lemma encode_loop_unbound:
  "encode_loop c es [] names acc = Inr (acc @ replicate (length names) None)"
  by (induction names arbitrary: acc)
     (simp_all add: encode_param_def replicate_app_Cons_same)

lemma encode_to_topics_no_arguments: "EventSignature_encode_to_topics c es [] [] = Inr []"
  by (simp add: EventSignature_encode_to_topics_def bind_partial_no_arguments
        encode_loop_unbound pop_trailing_None_eq)

lemma trailing_None_removed:
  "xs = rev (dropWhile (\<lambda>t. t = None) (rev full)) \<longleftrightarrow>
     (\<exists>n. full = xs @ replicate n None) \<and> (xs = [] \<or> last xs \<noteq> None)"
proof
  assume xs: "xs = rev (dropWhile (\<lambda>t. t = None) (rev full))"
  have "rev full = takeWhile (\<lambda>t. t = None) (rev full) @ dropWhile (\<lambda>t. t = None) (rev full)"
    by simp
  then have "full = xs @ rev (takeWhile (\<lambda>t. t = None) (rev full))"
    unfolding xs by (metis rev_append rev_rev_ident)
  moreover have "\<forall>y \<in> set (rev (takeWhile (\<lambda>t. t = None) (rev full))). y = None"
    by (auto dest: set_takeWhileD)
  then have "rev (takeWhile (\<lambda>t. t = None) (rev full))
                   = replicate (length (rev (takeWhile (\<lambda>t. t = None) (rev full)))) None"
    by (simp only: replicate_length_same)
  ultimately have "\<exists>n. full = xs @ replicate n None"
    by metis
  moreover have "xs = [] \<or> last xs \<noteq> None"
  proof (cases "dropWhile (\<lambda>t. t = None) (rev full)")
    case Nil
    then show ?thesis by (simp add: xs)
  next
    case (Cons y ys)
    then have "y \<noteq> None"
      using hd_dropWhile[of "\<lambda>t. t = None" "rev full"] by auto
    then show ?thesis by (simp add: xs Cons)
  qed
  ultimately show "(\<exists>n. full = xs @ replicate n None) \<and> (xs = [] \<or> last xs \<noteq> None)"
    by blast
next
  assume "(\<exists>n. full = xs @ replicate n None) \<and> (xs = [] \<or> last xs \<noteq> None)"
  then obtain n where full: "full = xs @ replicate n None" and l: "xs = [] \<or> last xs \<noteq> None"
    by blast
  have "dropWhile (\<lambda>t. t = None) (replicate n None @ rev xs) = dropWhile (\<lambda>t. t = None) (rev xs)"
    by (induction n) simp_all
  moreover have "dropWhile (\<lambda>t. t = None) (rev xs) = rev xs"
    using l by (cases xs rule: rev_cases) auto
  ultimately show "xs = rev (dropWhile (\<lambda>t. t = None) (rev full))"
    by (simp add: full)
qed

lemma mapM_Inr_iff: "mapM f xs = Inr ys \<longleftrightarrow> list_all2 (\<lambda>x y. f x = Inr y) xs ys"
proof (induction xs arbitrary: ys)
  case Nil
  then show ?case by auto
next
  case (Cons x xs)
  show ?case
  proof (cases "f x")
    case (Inl e)
    then show ?thesis by (auto simp: list_all2_Cons1)
  next
    case (Inr y)
    then show ?thesis
      using Cons.IH by (cases "mapM f xs") (auto simp: list_all2_Cons1)
  qed
qed

lemma encode_loop_mapM:
  "encode_loop c es arguments names acc =
     (case mapM (encode_param c es arguments) names of
        Inl e \<Rightarrow> Inl e
      | Inr ts \<Rightarrow> Inr (acc @ ts))"
  by (induction names arbitrary: acc) (auto split: sum.splits)

lemma encode_param_Inr_iff:
  "encode_param c es arguments name = Inr t \<longleftrightarrow>
     (case map_of arguments name of
        None \<Rightarrow> t = None
      | Some (Val v) \<Rightarrow>
          (\<exists>tp enc. map_of (es_types es) name = Some tp \<and> encode_to_topic c tp v = Inr enc
                    \<and> t = Some [enc])
      | Some (Either items) \<Rightarrow>
          (\<exists>tp encs. map_of (es_types es) name = Some tp
                     \<and> list_all2 (\<lambda>item enc. encode_to_topic c tp item = Inr enc) items encs
                     \<and> t = Some encs))"
proof -
  have alt: "(case mapM f items of Inl e \<Rightarrow> Inl e | Inr encoded_val \<Rightarrow> Inr (Some encoded_val))
               = Inr t
             \<longleftrightarrow> (\<exists>encs. list_all2 (\<lambda>item enc. f item = Inr enc) items encs \<and> t = Some encs)"
    for f :: "'b \<Rightarrow> py_error + bytes" and items
    by (cases "mapM f items") (auto simp: mapM_Inr_iff[symmetric])
  have one: "(case f v of Inl e \<Rightarrow> Inl e | Inr u \<Rightarrow> Inr (Some [u])) = Inr t
             \<longleftrightarrow> (\<exists>enc. f v = Inr enc \<and> t = Some [enc])"
    for f :: "'b \<Rightarrow> py_error + bytes" and v
    by (cases "f v") auto
  show ?thesis
  proof (cases "map_of arguments name")
    case None
    then show ?thesis by (auto simp: encode_param_def)
  next
    case (Some bound_val)
    show ?thesis
    proof (cases "map_of (es_types es) name")
      case None
      with Some show ?thesis
        by (cases bound_val) (simp_all add: encode_param_def getitem_def)
    next
      case tp: (Some tp)
      with Some show ?thesis
        by (cases bound_val) (simp_all add: encode_param_def getitem_def alt one)
    qed
  qed
qed

text \<open>
  What \<open>bind_partial\<close> binds, for a signature without repeated names: it accepts at most
  as many positional arguments as there are parameters; the first parameters take the
  positional arguments in order, every later parameter takes the keyword argument of its
  name, and stays unbound when there is none.
\<close>

lemma bind_positional_Inr:
  assumes "bind_positional sg args kwargs acc = Inr (arguments, rest)"
  shows "length args \<le> length sg \<and> rest = drop (length args) sg
       \<and> arguments = foldl (\<lambda>d (k, v). AList.update k v d) acc
                        (zip (map fst (take (length args) sg)) args)"
  using assms
proof (induction sg args kwargs acc rule: bind_positional.induct)
  case (1 params kwargs arguments)
  then show ?case by simp
next
  case (2 a as kwargs arguments)
  then show ?case by simp
next
  case (3 name kind params a as kwargs arguments)
  then show ?case by (auto split: if_splits)
qed

lemma map_of_foldl_update_zip:
  assumes "distinct names" "length vals \<le> length names"
  shows "map_of (foldl (\<lambda>d (k, v). AList.update k v d) acc (zip names vals)) k =
           (case map_of (zip names vals) k of None \<Rightarrow> map_of acc k | Some v \<Rightarrow> Some v)"
  using assms
proof (induction names arbitrary: vals acc)
  case Nil
  then show ?case by simp
next
  case (Cons n names)
  show ?case
  proof (cases vals)
    case Nil
    then show ?thesis by simp
  next
    case (Cons v vs)
    have "k \<noteq> n \<or> map_of (zip names vs) k = None"
      using Cons.prems(1) by (auto simp: map_of_eq_None_iff dest: set_zip_leftD)
    then show ?thesis
      using Cons.IH[of vs "AList.update n v acc"] Cons.prems Cons
      by (auto simp: update_conv' split: option.splits)
  qed
qed

lemma bind_keywords_Inr:
  assumes "bind_keywords params kwargs acc = Inr (arguments, kwargs')"
      and "distinct (map fst params)"
  shows "map_of arguments k =
           (if k \<in> fst ` set params \<and> map_of kwargs k \<noteq> None then map_of kwargs k
            else map_of acc k)"
  using assms
proof (induction params kwargs acc rule: bind_keywords.induct)
  case (1 kwargs arguments)
  then show ?case by simp
next
  case (2 name kind params kwargs acc)
  show ?case
  proof (cases "map_of kwargs name")
    case None
    with 2 show ?thesis
      by (auto split: if_splits)
  next
    case (Some v)
    with "2.prems" have kind: "kind \<noteq> POSITIONAL_ONLY"
      and rec: "bind_keywords params (AList.delete name kwargs) (AList.update name v acc)
                  = Inr (arguments, kwargs')"
      by (auto split: if_splits)
    from "2.prems"(2) have d: "distinct (map fst params)" and n: "name \<notin> fst ` set params"
      by auto
    have "map_of arguments k =
           (if k \<in> fst ` set params \<and> map_of (AList.delete name kwargs) k \<noteq> None
            then map_of (AList.delete name kwargs) k
            else map_of (AList.update name v acc) k)"
      using "2.IH"(2)[OF Some _ rec d] kind by simp
    then show ?thesis
      using Some n by (auto simp: update_conv' delete_conv')
  qed
qed

lemma bind_partial_arguments:
  assumes ok: "bind_partial sg args kwargs = Inr arguments"
      and dist: "distinct (map fst sg)"
  shows "length args \<le> length sg"
    and "i < length sg \<Longrightarrow>
         map_of arguments (fst (sg ! i)) =
           (if i < length args then Some (args ! i) else map_of kwargs (fst (sg ! i)))"
proof -
  from ok obtain a1 rest a2 k2 where
    pos: "bind_positional sg args kwargs [] = Inr (a1, rest)"
    and kw: "bind_keywords rest kwargs a1 = Inr (a2, k2)"
    and res: "arguments = a2"
    by (auto simp: bind_partial_def split: sum.splits prod.splits list.splits)
  from bind_positional_Inr[OF pos] have
    len: "length args \<le> length sg" and rest: "rest = drop (length args) sg"
    and a1: "a1 = foldl (\<lambda>d (k, v). AList.update k v d) []
                    (zip (map fst (take (length args) sg)) args)"
    by auto
  show "length args \<le> length sg"
    by (rule len)
  assume i: "i < length sg"
  define names where "names = map fst sg"
  have names: "distinct names" "length names = length sg" "fst (sg ! i) = names ! i"
    using dist i by (simp_all add: names_def)
  have a1_look: "map_of a1 k = map_of (zip (take (length args) names) args) k" for k
  proof -
    have eq: "a1 = foldl (\<lambda>d (k, v). AList.update k v d) []
                     (zip (take (length args) names) args)"
      by (simp add: a1 names_def take_map)
    have d: "distinct (take (length args) names)"
      using names(1) by (rule distinct_take)
    have l: "length args \<le> length (take (length args) names)"
      using len names(2) by simp
    have "map_of a1 k =
            (case map_of (zip (take (length args) names) args) k of
               None \<Rightarrow> map_of [] k
             | Some v \<Rightarrow> Some v)"
      unfolding eq by (rule map_of_foldl_update_zip[OF d l])
    then show ?thesis
      by (cases "map_of (zip (take (length args) names) args) k") simp_all
  qed
  have d_rest: "distinct (map fst rest)"
    unfolding rest using dist by (simp add: drop_map[symmetric] distinct_drop)
  have rest_names: "fst ` set rest = set (drop (length args) names)"
    by (simp add: rest names_def drop_map)
  note look = bind_keywords_Inr[OF kw d_rest, of "names ! i", unfolded rest_names]
  show "map_of arguments (fst (sg ! i)) =
           (if i < length args then Some (args ! i) else map_of kwargs (fst (sg ! i)))"
  proof (cases "i < length args")
    case True
    have "names ! i \<notin> set (drop (length args) names)"
    proof
      assume "names ! i \<in> set (drop (length args) names)"
      then obtain j where "j < length names - length args" "names ! (length args + j) = names ! i"
        by (auto simp: in_set_conv_nth)
      with names(1) True i names(2) show False
        by (auto simp: distinct_conv_nth)
    qed
    moreover have "map_of (zip (take (length args) names) args) (names ! i) = Some (args ! i)"
    proof -
      have "distinct (take (length args) names)"
        using names(1) by (rule distinct_take)
      moreover have "i < length (take (length args) names)" "i < length args"
        using True len names(2) by simp_all
      moreover have "take (length args) names ! i = names ! i"
        using True by simp
      ultimately show ?thesis
        by (metis map_of_zip_nth length_take min.absorb2 len names(2))
    qed
    ultimately show ?thesis
      using True look by (simp add: res names(3) a1_look)
  next
    case False
    have in_rest: "names ! i \<in> set (drop (length args) names)"
      using False i names(2) by (auto simp: in_set_conv_nth intro!: exI[of _ "i - length args"])
    have "names ! i \<notin> set (take (length args) names)"
    proof
      assume "names ! i \<in> set (take (length args) names)"
      then obtain j where "j < length args" "j < length names" "names ! j = names ! i"
        by (auto simp: in_set_conv_nth)
      with names(1) False i names(2) show False
        by (auto simp: distinct_conv_nth)
    qed
    then have "map_of (zip (take (length args) names) args) (names ! i) = None"
      by (auto simp: map_of_eq_None_iff dest: set_zip_leftD)
    with in_rest look False show ?thesis
      by (auto simp: res names(3) a1_look)
  qed
qed

text \<open>
  Claim C7.  Let \<open>arguments\<close> be a partial binding of the indexed parameters of an
  \<open>EventSignature\<close>, as \<open>bind_partial\<close> returns it (lemma \<open>bind_partial_arguments\<close>).
  Then \<open>encode_to_topics\<close> returns
  \<open>result\<close> exactly when there is a sequence \<open>full\<close> with one entry for each indexed
  parameter, in declaration order, where the entry is \<open>None\<close> if the parameter is unbound,
  the one-element tuple of the value's topic encoding if it is bound to a single value,
  and the tuple of the topic encodings of all alternatives if it is bound to an \<open>Either\<close>,
  and \<open>result\<close> is \<open>full\<close> with all its trailing \<open>None\<close> entries removed.
\<close>

theorem encode_to_topics_fields:
  assumes "bind_partial (es_signature es) args kwargs = Inr arguments"
  shows "EventSignature_encode_to_topics c es args kwargs = Inr result \<longleftrightarrow>
     (\<exists>full.
        list_all2
          (\<lambda>name t.
             case map_of arguments name of
               None \<Rightarrow> t = None
             | Some (Val v) \<Rightarrow>
                 (\<exists>tp enc. map_of (es_types es) name = Some tp
                           \<and> encode_to_topic c tp v = Inr enc \<and> t = Some [enc])
             | Some (Either items) \<Rightarrow>
                 (\<exists>tp encs. map_of (es_types es) name = Some tp
                            \<and> list_all2 (\<lambda>item enc. encode_to_topic c tp item = Inr enc)
                                 items encs
                            \<and> t = Some encs))
          (map fst (es_signature es)) full
        \<and> result = rev (dropWhile (\<lambda>t. t = None) (rev full)))"
proof -
  have "EventSignature_encode_to_topics c es args kwargs = Inr result \<longleftrightarrow>
          (\<exists>full. mapM (encode_param c es arguments) (map fst (es_signature es)) = Inr full
                  \<and> result = rev (dropWhile (\<lambda>t. t = None) (rev full)))"
    using assms
    by (auto simp: EventSignature_encode_to_topics_def encode_loop_mapM pop_trailing_None_eq
             split: sum.splits)
  then show ?thesis
    by (simp add: mapM_Inr_iff encode_param_Inr_iff)
qed

text \<open>
  The theorem at the \<open>Transfer\<close> event with \<open>to=Either(5, 6)\<close>: the unbound \<open>from_\<close> gives
  \<open>None\<close>, the bound \<open>to\<close> gives the two encodings.  With the single positional argument 9
  the entry of \<open>from_\<close> is a one-element tuple and the trailing \<open>None\<close> of \<open>to\<close> is removed.
\<close>

theorem encode_to_topics_fields_witness:
  "bind_partial (es_signature (e_fields transfer_event)) []
       [(''to'', Either [VInt 5, VInt 6])] = Inr [(''to'', Either [VInt 5, VInt 6])]
   \<and> EventSignature_encode_to_topics sample_codec (e_fields transfer_event) []
       [(''to'', Either [VInt 5, VInt 6])]
       = Inr [None, Some [replicate 31 0 @ [5], replicate 31 0 @ [6]]]
   \<and> EventSignature_encode_to_topics sample_codec (e_fields transfer_event)
       [Val (VInt 9)] []
       = Inr [Some [replicate 31 0 @ [9]]]
   \<and> (\<exists>full.
        list_all2
          (\<lambda>name t.
             case map_of [(''to'', Either [VInt 5, VInt 6])] name of
               None \<Rightarrow> t = None
             | Some (Val v) \<Rightarrow>
                 (\<exists>tp enc. map_of (es_types (e_fields transfer_event)) name = Some tp
                           \<and> encode_to_topic sample_codec tp v = Inr enc \<and> t = Some [enc])
             | Some (Either items) \<Rightarrow>
                 (\<exists>tp encs. map_of (es_types (e_fields transfer_event)) name = Some tp
                            \<and> list_all2 (\<lambda>item enc. encode_to_topic sample_codec tp item = Inr enc)
                                 items encs
                            \<and> t = Some encs))
          (map fst (es_signature (e_fields transfer_event))) full
        \<and> [None, Some [replicate 31 0 @ [5], replicate 31 0 @ [6]]]
            = rev (dropWhile (\<lambda>t. t = None) (rev full)))"
proof -
  have h: "bind_partial (es_signature (e_fields transfer_event)) []
       [(''to'', Either [VInt 5, VInt 6])] = Inr [(''to'', Either [VInt 5, VInt 6])]"
    by code_simp
  have r: "EventSignature_encode_to_topics sample_codec (e_fields transfer_event) []
       [(''to'', Either [VInt 5, VInt 6])]
       = Inr [None, Some [replicate 31 0 @ [5], replicate 31 0 @ [6]]]"
    by code_simp
  have r': "EventSignature_encode_to_topics sample_codec (e_fields transfer_event)
       [Val (VInt 9)] []
       = Inr [Some [replicate 31 0 @ [9]]]"
    by code_simp
  note ex = iffD1[OF encode_to_topics_fields[OF h] r]
  show ?thesis
    using h r r' ex by (intro conjI)
qed

text \<open>
  Claim C8.  For every non-anonymous \<open>Event\<close>, building a filter prepends the singleton
  tuple of the event's topic, the hash of its name and canonical signature, to the
  encoded indexed-field topics; called without arguments it gives a filter whose topic
  list is exactly \<open>[(topic,)]\<close>.  For every anonymous \<open>Event\<close> the filter holds the encoded
  indexed-field topics only.
\<close>

theorem Event_call_topics:
  "(\<not> e_anonymous ev \<longrightarrow>
      Event_call c ev [] [] = Inr \<lparr>ef_topics = [Some [Event_topic c ev]]\<rparr>)
   \<and> (\<not> e_anonymous ev
       \<and> EventSignature_encode_to_topics c (e_fields ev) args kwargs = Inr encoded \<longrightarrow>
      Event_call c ev args kwargs =
        Inr \<lparr>ef_topics = Some [Event_topic c ev] # map (map_option (map LogTopic)) encoded\<rparr>)
   \<and> (e_anonymous ev
       \<and> EventSignature_encode_to_topics c (e_fields ev) args kwargs = Inr encoded \<longrightarrow>
      Event_call c ev args kwargs =
        Inr \<lparr>ef_topics = map (map_option (map LogTopic)) encoded\<rparr>)
   \<and> Event_topic c ev =
       LogTopic (keccak c (str_encode (e_name ev)
                           @ str_encode (EventSignature_canonical_form c (e_fields ev))))"
proof -
  have m: "(\<lambda>topic. case topic of None \<Rightarrow> None | Some elems \<Rightarrow> Some (map LogTopic elems))
             = map_option (map LogTopic)"
    by (rule ext) (simp split: option.splits)
  show ?thesis
    by (simp add: Event_call_def encode_to_topics_no_arguments m Event_topic_def)
qed

text \<open>
  The theorem at the \<open>Transfer\<close> event, without arguments and with \<open>from_=5\<close>, and at the
  anonymous event with one positional argument.
\<close>

theorem Event_call_topics_witness:
  "\<not> e_anonymous transfer_event
   \<and> Event_call sample_codec transfer_event [] []
       = Inr \<lparr>ef_topics = [Some [LogTopic (str_encode ''Transfer(address,address,uint256'')]]\<rparr>
   \<and> EventSignature_encode_to_topics sample_codec (e_fields transfer_event) []
        [(''from_'', Val (VInt 5))] = Inr [Some [replicate 31 0 @ [5]]]
   \<and> Event_call sample_codec transfer_event [] [(''from_'', Val (VInt 5))]
       = Inr \<lparr>ef_topics = [Some [LogTopic (str_encode ''Transfer(address,address,uint256'')],
                            Some [LogTopic (replicate 31 0 @ [5])]]\<rparr>
   \<and> e_anonymous ping_event
   \<and> EventSignature_encode_to_topics sample_codec (e_fields ping_event) [Val (VInt 1)] []
       = Inr [Some [replicate 31 0 @ [1]]]
   \<and> Event_call sample_codec ping_event [Val (VInt 1)] []
       = Inr \<lparr>ef_topics = [Some [LogTopic (replicate 31 0 @ [1])]]\<rparr>"
proof -
  have t: "Event_topic sample_codec transfer_event
             = LogTopic (str_encode ''Transfer(address,address,uint256'')"
    by code_simp
  have a: "\<not> e_anonymous transfer_event"
    by code_simp
  have e1: "EventSignature_encode_to_topics sample_codec (e_fields transfer_event) []
        [(''from_'', Val (VInt 5))] = Inr [Some [replicate 31 0 @ [5]]]"
    by code_simp
  have b: "e_anonymous ping_event"
    by code_simp
  have e2: "EventSignature_encode_to_topics sample_codec (e_fields ping_event) [Val (VInt 1)] []
       = Inr [Some [replicate 31 0 @ [1]]]"
    by code_simp
  have r0: "Event_call sample_codec transfer_event [] []
       = Inr \<lparr>ef_topics = [Some [LogTopic (str_encode ''Transfer(address,address,uint256'')]]\<rparr>"
    using Event_call_topics[of transfer_event sample_codec] a t by simp
  have r1: "Event_call sample_codec transfer_event [] [(''from_'', Val (VInt 5))]
       = Inr \<lparr>ef_topics = [Some [LogTopic (str_encode ''Transfer(address,address,uint256'')],
                            Some [LogTopic (replicate 31 0 @ [5])]]\<rparr>"
    using Event_call_topics[of transfer_event sample_codec "[]" "[(''from_'', Val (VInt 5))]"
            "[Some [replicate 31 0 @ [5]]]"] a e1 t
    by simp
  have r2: "Event_call sample_codec ping_event [Val (VInt 1)] []
       = Inr \<lparr>ef_topics = [Some [LogTopic (replicate 31 0 @ [1])]]\<rparr>"
    using Event_call_topics[of ping_event sample_codec "[Val (VInt 1)]" "[]"
            "[Some [replicate 31 0 @ [1]]]"] b e2
    by simp
  show ?thesis
    using a r0 e1 r1 b e2 r2 by (intro conjI)
qed


section \<open>Decoding log entries\<close>

text \<open>
  Claim C6.  For every \<open>EventSignature\<close> and every log entry, \<open>decode_log_entry\<close> fails
  with a \<open>ValueError\<close> whose message cites both counts whenever the number of topics
  differs from the number of indexed fields (the size of \<open>_indexed\<close>), and it succeeds
  only when the two counts are equal.
\<close>

theorem decode_log_entry_count:
  "(length topics \<noteq> fcard (es_indexed es) \<longrightarrow>
      EventSignature_decode_log_entry c es topics data =
        Inl (ValueError
          (''The number of topics in the log entry ('' @ str_nat (length topics)
           @ '') does not match the number of indexed fields in the event (''
           @ str_nat (fcard (es_indexed es)) @ '')'')))
   \<and> (EventSignature_decode_log_entry c es topics data = Inr result \<longrightarrow>
      length topics = fcard (es_indexed es))"
proof (intro conjI impI)
  assume "length topics \<noteq> fcard (es_indexed es)"
  then show "EventSignature_decode_log_entry c es topics data =
        Inl (ValueError
          (''The number of topics in the log entry ('' @ str_nat (length topics)
           @ '') does not match the number of indexed fields in the event (''
           @ str_nat (fcard (es_indexed es)) @ '')''))"
    by (simp add: EventSignature_decode_log_entry_def topic_count_message_def)
next
  assume ok: "EventSignature_decode_log_entry c es topics data = Inr result"
  show "length topics = fcard (es_indexed es)"
  proof (rule ccontr)
    assume "length topics \<noteq> fcard (es_indexed es)"
    then have "\<exists>e. EventSignature_decode_log_entry c es topics data = Inl e"
      by (simp add: EventSignature_decode_log_entry_def)
    with ok show False
      by simp
  qed
qed

text \<open>
  The theorem at the fields of the \<open>Transfer\<close> event, which has two indexed fields: one
  topic is refused, two topics and a data word are decoded.
\<close>

theorem decode_log_entry_count_witness:
  "length [replicate 31 0 @ [1 :: byte]] \<noteq> fcard (es_indexed (e_fields transfer_event))
   \<and> EventSignature_decode_log_entry sample_codec (e_fields transfer_event)
        [replicate 31 0 @ [1]] (replicate 31 0 @ [9])
       = Inl (ValueError
           ''The number of topics in the log entry (1) does not match the number of indexed fields in the event (2)'')
   \<and> EventSignature_decode_log_entry sample_codec (e_fields transfer_event)
        [replicate 31 0 @ [1], replicate 31 0 @ [2]] (replicate 31 0 @ [9])
       = Inr [(''from_'', VInt 1), (''to'', VInt 2), (''value'', VInt 9)]
   \<and> length [replicate 31 0 @ [1 :: byte], replicate 31 0 @ [2]]
       = fcard (es_indexed (e_fields transfer_event))"
proof -
  have h: "length [replicate 31 0 @ [1 :: byte]] \<noteq> fcard (es_indexed (e_fields transfer_event))"
    by code_simp
  have m: "''The number of topics in the log entry (''
             @ str_nat (length [replicate 31 0 @ [1 :: byte]])
             @ '') does not match the number of indexed fields in the event (''
             @ str_nat (fcard (es_indexed (e_fields transfer_event))) @ '')''
           = ''The number of topics in the log entry (1) does not match the number of indexed fields in the event (2)''"
    by code_simp
  have ok: "EventSignature_decode_log_entry sample_codec (e_fields transfer_event)
        [replicate 31 0 @ [1], replicate 31 0 @ [2]] (replicate 31 0 @ [9])
       = Inr [(''from_'', VInt 1), (''to'', VInt 2), (''value'', VInt 9)]"
    by code_simp
  note t1 = decode_log_entry_count[of "[replicate 31 0 @ [1]]" "e_fields transfer_event"
              sample_codec "replicate 31 0 @ [9]"]
  from t1 h have "EventSignature_decode_log_entry sample_codec (e_fields transfer_event)
        [replicate 31 0 @ [1]] (replicate 31 0 @ [9])
       = Inl (ValueError
          (''The number of topics in the log entry (''
             @ str_nat (length [replicate 31 0 @ [1 :: byte]])
             @ '') does not match the number of indexed fields in the event (''
             @ str_nat (fcard (es_indexed (e_fields transfer_event))) @ '')''))"
    by blast
  then have r1: "EventSignature_decode_log_entry sample_codec (e_fields transfer_event)
        [replicate 31 0 @ [1]] (replicate 31 0 @ [9])
       = Inl (ValueError
           ''The number of topics in the log entry (1) does not match the number of indexed fields in the event (2)'')"
    by (simp only: m)
  note t2 = decode_log_entry_count[of "[replicate 31 0 @ [1], replicate 31 0 @ [2]]"
              "e_fields transfer_event" sample_codec "replicate 31 0 @ [9]"
              "[(''from_'', VInt 1), (''to'', VInt 2), (''value'', VInt 9)]"]
  from t2 ok have r2: "length [replicate 31 0 @ [1 :: byte], replicate 31 0 @ [2]]
       = fcard (es_indexed (e_fields transfer_event))"
    by blast
  show ?thesis
    using h r1 ok r2 by (intro conjI)
qed

text \<open>
  Claim C10.  For every non-anonymous \<open>Event\<close>, \<open>decode_log_entry\<close> reads \<open>topics[0]\<close>
  and compares it with the event's topic before any count is checked: on an empty topic
  list it fails with the \<open>IndexError\<close> of the subscript, not with one of the two
  \<open>ValueError\<close>s; on a non-empty list whose first topic differs it fails with the
  different-event error, whatever the number of topics; and only when the first topic
  matches are the remaining topics handed to \<open>EventSignature.decode_log_entry\<close>, which
  checks their number.
\<close>

theorem Event_decode_log_entry_topic0:
  assumes "\<not> e_anonymous ev"
  shows "(le_topics log_entry = [] \<longrightarrow>
            Event_decode_log_entry c ev log_entry = Inl (IndexError ''tuple index out of range''))
       \<and> (\<forall>topic0 rest. le_topics log_entry = topic0 # rest \<and> topic0 \<noteq> Event_topic c ev \<longrightarrow>
            Event_decode_log_entry c ev log_entry
              = Inl (ValueError ''This log entry belongs to a different event''))
       \<and> (\<forall>rest. le_topics log_entry = Event_topic c ev # rest \<longrightarrow>
            Event_decode_log_entry c ev log_entry
              = EventSignature_decode_log_entry c (e_fields ev) (map topic_bytes rest)
                  (le_data log_entry))"
  using assms by (simp add: Event_decode_log_entry_def)

text \<open>The theorem at the \<open>Transfer\<close> event: no topic, and one topic that is not the event's.\<close>

theorem Event_decode_log_entry_topic0_witness:
  "\<not> e_anonymous transfer_event
   \<and> Event_decode_log_entry sample_codec transfer_event \<lparr>le_topics = [], le_data = []\<rparr>
       = Inl (IndexError ''tuple index out of range'')
   \<and> LogTopic (replicate 31 0 @ [1]) \<noteq> Event_topic sample_codec transfer_event
   \<and> Event_decode_log_entry sample_codec transfer_event
        \<lparr>le_topics = [LogTopic (replicate 31 0 @ [1])], le_data = []\<rparr>
       = Inl (ValueError ''This log entry belongs to a different event'')"
proof -
  have a: "\<not> e_anonymous transfer_event"
    by code_simp
  have n: "LogTopic (replicate 31 0 @ [1]) \<noteq> Event_topic sample_codec transfer_event"
    by code_simp
  have r1: "Event_decode_log_entry sample_codec transfer_event \<lparr>le_topics = [], le_data = []\<rparr>
       = Inl (IndexError ''tuple index out of range'')"
    using Event_decode_log_entry_topic0[OF a, of "\<lparr>le_topics = [], le_data = []\<rparr>" sample_codec]
    by simp
  have r2: "Event_decode_log_entry sample_codec transfer_event
        \<lparr>le_topics = [LogTopic (replicate 31 0 @ [1])], le_data = []\<rparr>
       = Inl (ValueError ''This log entry belongs to a different event'')"
    using Event_decode_log_entry_topic0[OF a,
            of "\<lparr>le_topics = [LogTopic (replicate 31 0 @ [1])], le_data = []\<rparr>" sample_codec] n
    by simp
  show ?thesis
    using a r1 n r2 by (intro conjI)
qed

section \<open>Constructing an \<open>Event\<close>\<close>

text \<open>
  A field name that is an identifier is accepted by \<open>inspect\<close> after \<open>make_name_safe\<close>, and
  the errors \<open>EventSignature.__init__\<close> can raise are not those of the indexed-field cap.
\<close>

lemma mapM_all_Inr: "(\<And>x. x \<in> set xs \<Longrightarrow> f x = Inr (g x)) \<Longrightarrow> mapM f xs = Inr (map g xs)"
  by (induction xs) auto

lemma mapM_Inl: "mapM f xs = Inl e \<Longrightarrow> \<exists>x \<in> set xs. f x = Inl e"
  by (induction xs) (auto split: sum.splits)

lemma keyword_underscore: "k \<in> set kwlist \<Longrightarrow> k @ ''_'' \<notin> set kwlist"
  by (auto simp: kwlist_def)

lemma make_name_safe_not_keyword: "\<not> iskeyword (make_name_safe name)"
  by (auto simp: make_name_safe_def iskeyword_def keyword_underscore)

lemma isidentifier_make_name_safe: "isidentifier name \<Longrightarrow> isidentifier (make_name_safe name)"
  by (cases name) (auto simp: make_name_safe_def isidentifier_def id_continue_def id_start_def)

lemma inspect_Signature_valid:
  assumes "\<And>name. name \<in> set names \<Longrightarrow> isidentifier name \<and> \<not> iskeyword name"
      and "distinct names"
  shows "inspect_Signature (map (\<lambda>name. (name, POSITIONAL_OR_KEYWORD)) names)
           = Inr (map (\<lambda>name. (name, POSITIONAL_OR_KEYWORD)) names)"
proof -
  have "mapM (\<lambda>(name, kind). inspect_Parameter name kind)
             (map (\<lambda>name. (name, POSITIONAL_OR_KEYWORD)) names)
          = Inr (map (\<lambda>p. p) (map (\<lambda>name. (name, POSITIONAL_OR_KEYWORD)) names))"
    by (rule mapM_all_Inr) (use assms(1) in \<open>auto simp: inspect_Parameter_def\<close>)
  with assms(2) show ?thesis
    by (simp add: inspect_Signature_def comp_def)
qed

lemma inspect_Signature_error:
  assumes "inspect_Signature ps = Inl e"
  shows "e = ValueError ''duplicate parameter name''
       \<or> (\<exists>name. e = ValueError (name @ '' is not a valid parameter name''))"
proof (cases "mapM (\<lambda>(name, kind). inspect_Parameter name kind) ps")
  case (Inl e')
  then obtain p where "p \<in> set ps" "(\<lambda>(name, kind). inspect_Parameter name kind) p = Inl e'"
    by (blast dest: mapM_Inl)
  then have "\<exists>name. e' = ValueError (name @ '' is not a valid parameter name'')"
    by (auto simp: inspect_Parameter_def split: prod.splits if_splits)
  with Inl assms show ?thesis
    by (simp add: inspect_Signature_def)
next
  case (Inr params)
  with assms show ?thesis
    by (simp add: inspect_Signature_def split: if_splits)
qed

lemma EventSignature_init_valid:
  assumes "\<And>name. name \<in> fst ` set parameters \<Longrightarrow> isidentifier name"
  shows "\<exists>es. EventSignature_init parameters indexed = Inr es
             \<and> es_indexed es = make_name_safe |`| indexed"
proof -
  define ps where "ps = py_dict (map (\<lambda>(name, val). (make_name_safe name, val)) parameters)"
  define ix where "ix = make_name_safe |`| indexed"
  have keys: "fst ` set ps = make_name_safe ` fst ` set parameters"
    by (force simp: ps_def keys_py_dict image_image split_def)
  have dist: "distinct (map fst ps)"
    by (simp add: ps_def distinct_py_dict)
  have m: "map (\<lambda>(name, tp). (name, POSITIONAL_OR_KEYWORD)) (filter (\<lambda>(name, tp). name |\<in>| ix) ps)
             = map (\<lambda>name. (name, POSITIONAL_OR_KEYWORD)) (filter (\<lambda>name. name |\<in>| ix) (map fst ps))"
    by (induction ps) auto
  have valid: "isidentifier name \<and> \<not> iskeyword name" if "name \<in> set (map fst ps)" for name
  proof -
    from that keys obtain n where "n \<in> fst ` set parameters" "name = make_name_safe n"
      by auto
    then show ?thesis
      using assms by (simp add: isidentifier_make_name_safe make_name_safe_not_keyword)
  qed
  have sg: "inspect_Signature
              (map (\<lambda>(name, tp). (name, POSITIONAL_OR_KEYWORD)) (filter (\<lambda>(name, tp). name |\<in>| ix) ps))
            = Inr (map (\<lambda>name. (name, POSITIONAL_OR_KEYWORD))
                       (filter (\<lambda>name. name |\<in>| ix) (map fst ps)))"
    unfolding m by (rule inspect_Signature_valid) (use valid dist in \<open>auto simp: distinct_filter\<close>)
  have "mapM (\<lambda>name. case getitem ps name of Inl e \<Rightarrow> Inl e | Inr tp \<Rightarrow> Inr (name, tp))
             (filter (\<lambda>name. name |\<notin>| ix) (map fst ps))
          = Inr (map (\<lambda>name. (name, the (map_of ps name)))
                     (filter (\<lambda>name. name |\<notin>| ix) (map fst ps)))"
  proof (rule mapM_all_Inr)
    fix name assume "name \<in> set (filter (\<lambda>name. name |\<notin>| ix) (map fst ps))"
    then have "name \<in> fst ` set ps"
      by auto
    then obtain tp where "map_of ps name = Some tp"
      by (metis domD dom_map_of_conv_image_fst)
    then show "(case getitem ps name of Inl e \<Rightarrow> Inl e | Inr tp \<Rightarrow> Inr (name, tp))
                 = Inr (name, the (map_of ps name))"
      by (simp add: getitem_def)
  qed
  with sg show ?thesis
    by (simp add: EventSignature_init_def Let_def ps_def[symmetric] ix_def[symmetric])
qed

lemma EventSignature_init_error:
  assumes "EventSignature_init parameters indexed = Inl e"
  shows "e \<noteq> ValueError ''Anonymous events can have at most 4 indexed fields''
       \<and> e \<noteq> ValueError ''Non-anonymous events can have at most 3 indexed fields''"
proof -
  define ps where "ps = py_dict (map (\<lambda>(name, val). (make_name_safe name, val)) parameters)"
  define ix where "ix = make_name_safe |`| indexed"
  define sgl where "sgl = map (\<lambda>(name, tp). (name, POSITIONAL_OR_KEYWORD))
                              (filter (\<lambda>(name, tp). name |\<in>| ix) ps)"
  have last_name: "name @ '' is not a valid parameter name'' \<noteq> s" if "last s = CHR ''s''" for name s
  proof
    assume "name @ '' is not a valid parameter name'' = s"
    then have "last s = last (name @ '' is not a valid parameter name'')"
      by simp
    also have "\<dots> = CHR ''e''"
      by simp
    finally show False
      using that by simp
  qed
  show ?thesis
  proof (cases "inspect_Signature sgl")
    case (Inl e')
    with assms have "e = e'"
      by (simp add: EventSignature_init_def Let_def ps_def[symmetric] ix_def[symmetric]
            sgl_def[symmetric])
    with inspect_Signature_error[OF Inl] show ?thesis
      by (auto simp: last_name)
  next
    case (Inr sg)
    with assms obtain names where
      "mapM (\<lambda>name. case getitem ps name of Inl e \<Rightarrow> Inl e | Inr tp \<Rightarrow> Inr (name, tp)) names = Inl e"
      by (auto simp: EventSignature_init_def Let_def ps_def[symmetric] ix_def[symmetric]
            sgl_def[symmetric] split: sum.splits)
    then obtain name where
      "(case getitem ps name of Inl e \<Rightarrow> Inl e | Inr tp \<Rightarrow> Inr (name, tp)) = Inl e"
      by (blast dest: mapM_Inl)
    then show ?thesis
      by (auto simp: getitem_def split: option.splits)
  qed
qed

text \<open>
  Claim C5.  Constructing an \<open>Event\<close> fails with the validation error of the indexed-field
  cap exactly when the cap is violated: more than 4 indexed fields for an anonymous
  event, more than 3 for a non-anonymous one.  The check is the first thing the
  constructor does, and no hashing can precede it: \<open>Event_init\<close> has no access to the
  codec, the topic is hashed when it is first read.  Within the cap, and with field names
  that are identifiers, the construction succeeds.  So an anonymous event with 5 indexed
  fields fails and one with 4 succeeds, a non-anonymous event with 4 indexed fields fails
  and one with 3 succeeds.
\<close>

theorem Event_init_cap:
  "(anonymous \<and> 4 < fcard indexed \<longrightarrow>
      Event_init name flds indexed anonymous
        = Inl (ValueError ''Anonymous events can have at most 4 indexed fields''))
   \<and> (\<not> anonymous \<and> 3 < fcard indexed \<longrightarrow>
      Event_init name flds indexed anonymous
        = Inl (ValueError ''Non-anonymous events can have at most 3 indexed fields''))
   \<and> (Event_init name flds indexed anonymous
        = Inl (ValueError ''Anonymous events can have at most 4 indexed fields'')
       \<or> Event_init name flds indexed anonymous
        = Inl (ValueError ''Non-anonymous events can have at most 3 indexed fields'') \<longrightarrow>
      (if anonymous then 4 < fcard indexed else 3 < fcard indexed))
   \<and> ((if anonymous then fcard indexed \<le> 4 else fcard indexed \<le> 3)
       \<and> (\<forall>n \<in> fst ` set flds. isidentifier n) \<longrightarrow>
      (\<exists>ev. Event_init name flds indexed anonymous = Inr ev
            \<and> e_name ev = name \<and> e_indexed ev = indexed \<and> e_anonymous ev = anonymous))"
proof -
  have ok: "\<exists>ev. Event_init name flds indexed anonymous = Inr ev
            \<and> e_name ev = name \<and> e_indexed ev = indexed \<and> e_anonymous ev = anonymous"
    if "if anonymous then fcard indexed \<le> 4 else fcard indexed \<le> 3"
       "\<forall>n \<in> fst ` set flds. isidentifier n"
  proof -
    from that(2) obtain es where "EventSignature_init flds indexed = Inr es"
      using EventSignature_init_valid[of flds indexed] by blast
    with that(1) show ?thesis
      by (auto simp: Event_init_def split: if_splits)
  qed
  have only: "if anonymous then 4 < fcard indexed else 3 < fcard indexed"
    if "Event_init name flds indexed anonymous
          = Inl (ValueError ''Anonymous events can have at most 4 indexed fields'')
        \<or> Event_init name flds indexed anonymous
          = Inl (ValueError ''Non-anonymous events can have at most 3 indexed fields'')"
  proof (rule ccontr)
    assume "\<not> (if anonymous then 4 < fcard indexed else 3 < fcard indexed)"
    then have "Event_init name flds indexed anonymous =
                 (case EventSignature_init flds indexed of
                    Inl e \<Rightarrow> Inl e
                  | Inr es \<Rightarrow> Inr \<lparr>e_name = name, e_indexed = indexed, e_fields = es,
                                    e_anonymous = anonymous\<rparr>)"
      by (auto simp: Event_init_def split: if_splits)
    with that EventSignature_init_error[of flds indexed] show False
      by (cases "EventSignature_init flds indexed") auto
  qed
  have anon: "Event_init name flds indexed anonymous
                = Inl (ValueError ''Anonymous events can have at most 4 indexed fields'')"
    if "anonymous" "4 < fcard indexed"
    using that by (simp add: Event_init_def)
  have nonanon: "Event_init name flds indexed anonymous
                = Inl (ValueError ''Non-anonymous events can have at most 3 indexed fields'')"
    if "\<not> anonymous" "3 < fcard indexed"
    using that by (simp add: Event_init_def)
  from anon nonanon only ok show ?thesis
    by blast
qed

text \<open>The theorem at events over \<open>five_fields\<close> with 5, 4, 4 and 3 indexed fields.\<close>

theorem Event_init_cap_witness:
  "4 < fcard {|''a'', ''b'', ''c'', ''d'', ''e''|}
   \<and> Event_init ''E'' five_fields {|''a'', ''b'', ''c'', ''d'', ''e''|} True
       = Inl (ValueError ''Anonymous events can have at most 4 indexed fields'')
   \<and> fcard {|''a'', ''b'', ''c'', ''d''|} \<le> 4
   \<and> list_all isidentifier (map fst five_fields)
   \<and> (\<exists>ev. Event_init ''E'' five_fields {|''a'', ''b'', ''c'', ''d''|} True = Inr ev
            \<and> e_name ev = ''E'' \<and> e_indexed ev = {|''a'', ''b'', ''c'', ''d''|}
            \<and> e_anonymous ev = True)
   \<and> 3 < fcard {|''a'', ''b'', ''c'', ''d''|}
   \<and> Event_init ''E'' five_fields {|''a'', ''b'', ''c'', ''d''|} False
       = Inl (ValueError ''Non-anonymous events can have at most 3 indexed fields'')
   \<and> fcard {|''a'', ''b'', ''c''|} \<le> 3
   \<and> (\<exists>ev. Event_init ''E'' five_fields {|''a'', ''b'', ''c''|} False = Inr ev
            \<and> e_name ev = ''E'' \<and> e_indexed ev = {|''a'', ''b'', ''c''|}
            \<and> e_anonymous ev = False)"
proof -
  have c5: "4 < fcard {|''a'', ''b'', ''c'', ''d'', ''e''|}"
    by (simp add: fcard_finsert_if)
  have c4: "fcard {|''a'', ''b'', ''c'', ''d''|} \<le> 4" "3 < fcard {|''a'', ''b'', ''c'', ''d''|}"
    by (simp_all add: fcard_finsert_if)
  have c3: "fcard {|''a'', ''b'', ''c''|} \<le> 3"
    by (simp add: fcard_finsert_if)
  have ids: "list_all isidentifier (map fst five_fields)"
    by code_simp
  then have ids': "\<forall>n \<in> fst ` set five_fields. isidentifier n"
    by (simp add: list_all_iff)
  have r5: "Event_init ''E'' five_fields {|''a'', ''b'', ''c'', ''d'', ''e''|} True
       = Inl (ValueError ''Anonymous events can have at most 4 indexed fields'')"
    using Event_init_cap[where anonymous = True and name = "''E''" and flds = five_fields
            and indexed = "{|''a'', ''b'', ''c'', ''d'', ''e''|}"] c5
    by blast
  have r4: "\<exists>ev. Event_init ''E'' five_fields {|''a'', ''b'', ''c'', ''d''|} True = Inr ev
            \<and> e_name ev = ''E'' \<and> e_indexed ev = {|''a'', ''b'', ''c'', ''d''|}
            \<and> e_anonymous ev = True"
    using Event_init_cap[where anonymous = True and name = "''E''" and flds = five_fields
            and indexed = "{|''a'', ''b'', ''c'', ''d''|}"] c4(1) ids'
    by simp
  have n4: "Event_init ''E'' five_fields {|''a'', ''b'', ''c'', ''d''|} False
       = Inl (ValueError ''Non-anonymous events can have at most 3 indexed fields'')"
    using Event_init_cap[where anonymous = False and name = "''E''" and flds = five_fields
            and indexed = "{|''a'', ''b'', ''c'', ''d''|}"] c4(2)
    by blast
  have n3: "\<exists>ev. Event_init ''E'' five_fields {|''a'', ''b'', ''c''|} False = Inr ev
            \<and> e_name ev = ''E'' \<and> e_indexed ev = {|''a'', ''b'', ''c''|}
            \<and> e_anonymous ev = False"
    using Event_init_cap[where anonymous = False and name = "''E''" and flds = five_fields
            and indexed = "{|''a'', ''b'', ''c''|}"] c3 ids'
    by simp
  show ?thesis
    using c5 r5 c4(1) ids r4 c4(2) n4 c3 n3 by (intro conjI)
qed

section \<open>Decoding the output of a method\<close>

lemma Signature_init_types:
  "Signature_init ps = Inr sg \<Longrightarrow>
     s_types sg = (case ps of Mapping kvs \<Rightarrow> map snd kvs | Sequence tps \<Rightarrow> tps)"
  by (auto simp: Signature_init_def split: parameters.splits sum.splits)

lemma Method_init_single:
  "Method_init name mutability inputs outputs = Inr m \<Longrightarrow>
     m_single_output m = (\<exists>tp. outputs = OutType tp)
     \<and> s_types (m_outputs m) =
         (case outputs of
            OutNone \<Rightarrow> []
          | OutType tp \<Rightarrow> [tp]
          | OutParams (Mapping kvs) \<Rightarrow> map snd kvs
          | OutParams (Sequence tps) \<Rightarrow> tps)"
  by (cases outputs)
     (auto simp: Method_init_def Let_def split: sum.splits parameters.splits
           dest!: Signature_init_types)

lemma Method_from_json_init:
  "Method_from_json c method_entry = Inr m \<Longrightarrow>
     \<exists>name mutability inputs ps. Method_init name mutability inputs (OutParams ps) = Inr m"
  unfolding Method_from_json_def
  by (auto split: sum.splits option.splits if_splits bool.splits)

text \<open>
  Claim C4, as amended.  For every \<open>Method\<close> constructed with its outputs given as one
  bare \<open>Type\<close>, \<open>decode_output\<close> unwraps the decoded one-tuple and returns the bare value.
  For every \<open>Method\<close> constructed with a list of types, of any length, or with named
  outputs, \<open>decode_output\<close> returns the full tuple of decoded values.  \<open>Method.from_json\<close>
  always hands \<open>Method.__init__\<close> a list or a mapping, so for a method built from a JSON
  entry, also one whose \<open>outputs\<close> list has exactly one entry with an empty name,
  \<open>decode_output\<close> returns the full tuple.
\<close>

theorem decode_output_unwrap:
  "(Method_init name mutability inputs (OutType tp) = Inr m \<longrightarrow>
      m_single_output m \<and> s_types (m_outputs m) = [tp]
      \<and> (\<forall>b v vs. decode_args c [tp] b = Inr (v # vs) \<longrightarrow>
             Method_decode_output c m b = Inr (Bare v)))
   \<and> (Method_init name mutability inputs (OutParams ps) = Inr m \<longrightarrow>
      \<not> m_single_output m
      \<and> s_types (m_outputs m) = (case ps of Mapping kvs \<Rightarrow> map snd kvs | Sequence tps \<Rightarrow> tps)
      \<and> (\<forall>b vs. decode_args c (s_types (m_outputs m)) b = Inr vs \<longrightarrow>
             Method_decode_output c m b = Inr (Tuple vs)))
   \<and> (Method_from_json c method_entry = Inr m \<longrightarrow>
      \<not> m_single_output m
      \<and> (\<forall>b vs. decode_args c (s_types (m_outputs m)) b = Inr vs \<longrightarrow>
             Method_decode_output c m b = Inr (Tuple vs)))"
proof -
  have bare: "Method_decode_output c m b = Inr (Bare v)"
    if "m_single_output m" "decode_args c (s_types (m_outputs m)) b = Inr (v # vs)" for b v vs
    using that by (simp add: Method_decode_output_def Signature_decode_into_tuple_def)
  have tuple: "Method_decode_output c m b = Inr (Tuple vs)"
    if "\<not> m_single_output m" "decode_args c (s_types (m_outputs m)) b = Inr vs" for b vs
    using that by (simp add: Method_decode_output_def Signature_decode_into_tuple_def)
  have one: "m_single_output m \<and> s_types (m_outputs m) = [tp]"
    if "Method_init name mutability inputs (OutType tp) = Inr m"
    using Method_init_single[OF that] by simp
  have many: "\<not> m_single_output m
      \<and> s_types (m_outputs m) = (case ps of Mapping kvs \<Rightarrow> map snd kvs | Sequence tps \<Rightarrow> tps)"
    if "Method_init name mutability inputs (OutParams ps) = Inr m"
    using Method_init_single[OF that] by (simp split: parameters.splits)
  have json: "\<not> m_single_output m" if "Method_from_json c method_entry = Inr m"
  proof -
    from Method_from_json_init[OF that] obtain n mu i p where
      "Method_init n mu i (OutParams p) = Inr m"
      by blast
    from Method_init_single[OF this] show ?thesis
      by simp
  qed
  show ?thesis
    using bare tuple one many json by (metis (no_types, lifting))
qed

text \<open>
  The theorem at a method with the single output type \<open>uint256\<close>, at a method with the
  output list \<open>[uint256, address]\<close>, and at the method built from \<open>get_state_entry\<close>.
\<close>

theorem decode_output_unwrap_witness:
  "Method_init ''getState'' VIEW (Mapping [(''x'', TUint 256)]) (OutType (TUint 256))
      = Inr (projr (Method_init ''getState'' VIEW (Mapping [(''x'', TUint 256)])
                      (OutType (TUint 256))))
   \<and> decode_args sample_codec [TUint 256] (replicate 31 0 @ [7]) = Inr [VInt 7]
   \<and> Method_decode_output sample_codec
        (projr (Method_init ''getState'' VIEW (Mapping [(''x'', TUint 256)])
                  (OutType (TUint 256))))
        (replicate 31 0 @ [7]) = Inr (Bare (VInt 7))
   \<and> Method_init ''getState'' VIEW (Mapping [(''x'', TUint 256)])
        (OutParams (Sequence [TUint 256, TAddress]))
      = Inr (projr (Method_init ''getState'' VIEW (Mapping [(''x'', TUint 256)])
                      (OutParams (Sequence [TUint 256, TAddress]))))
   \<and> decode_args sample_codec
        (s_types (m_outputs (projr (Method_init ''getState'' VIEW (Mapping [(''x'', TUint 256)])
                                      (OutParams (Sequence [TUint 256, TAddress]))))))
        (replicate 31 0 @ [7] @ replicate 31 0 @ [8]) = Inr [VInt 7, VInt 8]
   \<and> Method_decode_output sample_codec
        (projr (Method_init ''getState'' VIEW (Mapping [(''x'', TUint 256)])
                  (OutParams (Sequence [TUint 256, TAddress]))))
        (replicate 31 0 @ [7] @ replicate 31 0 @ [8]) = Inr (Tuple [VInt 7, VInt 8])
   \<and> Method_from_json sample_codec get_state_entry
      = Inr (projr (Method_from_json sample_codec get_state_entry))
   \<and> decode_args sample_codec
        (s_types (m_outputs (projr (Method_from_json sample_codec get_state_entry))))
        (replicate 31 0 @ [7]) = Inr [VInt 7]
   \<and> \<not> m_single_output (projr (Method_from_json sample_codec get_state_entry))
   \<and> Method_decode_output sample_codec (projr (Method_from_json sample_codec get_state_entry))
        (replicate 31 0 @ [7]) = Inr (Tuple [VInt 7])"
proof -
  define m1 where "m1 = projr (Method_init ''getState'' VIEW (Mapping [(''x'', TUint 256)])
                      (OutType (TUint 256)))"
  define m2 where "m2 = projr (Method_init ''getState'' VIEW (Mapping [(''x'', TUint 256)])
                      (OutParams (Sequence [TUint 256, TAddress])))"
  define m3 where "m3 = projr (Method_from_json sample_codec get_state_entry)"
  have i1: "Method_init ''getState'' VIEW (Mapping [(''x'', TUint 256)]) (OutType (TUint 256))
              = Inr m1"
    unfolding m1_def by code_simp
  have i2: "Method_init ''getState'' VIEW (Mapping [(''x'', TUint 256)])
              (OutParams (Sequence [TUint 256, TAddress])) = Inr m2"
    unfolding m2_def by code_simp
  have i3: "Method_from_json sample_codec get_state_entry = Inr m3"
    unfolding m3_def by code_simp
  have d1: "decode_args sample_codec [TUint 256] (replicate 31 0 @ [7]) = Inr [VInt 7]"
    by code_simp
  have d2: "decode_args sample_codec (s_types (m_outputs m2))
              (replicate 31 0 @ [7] @ replicate 31 0 @ [8]) = Inr [VInt 7, VInt 8]"
    unfolding m2_def by code_simp
  have d3: "decode_args sample_codec (s_types (m_outputs m3)) (replicate 31 0 @ [7])
              = Inr [VInt 7]"
    unfolding m3_def by code_simp
  have r1: "Method_decode_output sample_codec m1 (replicate 31 0 @ [7]) = Inr (Bare (VInt 7))"
    using decode_output_unwrap[where m = m1 and c = sample_codec and tp = "TUint 256"
            and name = "''getState''" and mutability = VIEW
            and inputs = "Mapping [(''x'', TUint 256)]"] i1 d1
    by blast
  have r2: "Method_decode_output sample_codec m2 (replicate 31 0 @ [7] @ replicate 31 0 @ [8])
              = Inr (Tuple [VInt 7, VInt 8])"
    using decode_output_unwrap[where m = m2 and c = sample_codec
            and ps = "Sequence [TUint 256, TAddress]"
            and name = "''getState''" and mutability = VIEW
            and inputs = "Mapping [(''x'', TUint 256)]"] i2 d2
    by blast
  have r3: "\<not> m_single_output m3"
       "Method_decode_output sample_codec m3 (replicate 31 0 @ [7]) = Inr (Tuple [VInt 7])"
    using decode_output_unwrap[where m = m3 and c = sample_codec
            and method_entry = get_state_entry] i3 d3
    by blast+
  show ?thesis
    using i1 d1 r1 i2 d2 r2 i3 d3 r3 unfolding m1_def m2_def m3_def by (intro conjI)
qed

text \<open>
  Claim C4 as it was stated fails for the method built by \<open>Method.from_json\<close> from
  \<open>get_state_entry\<close>, whose \<open>outputs\<close> list has exactly one entry, with an empty name:
  the method is not marked as having a single output, and \<open>decode_output\<close> on the word 7
  returns the one-tuple \<open>(7,)\<close>, not the bare value 7.
\<close>

theorem from_json_single_output_counterexample:
  "map_of get_state_entry ''outputs''
      = Some (JList [JDict [(''name'', JStr ''''), (''type'', JStr ''uint256'')]])
   \<and> Method_from_json sample_codec get_state_entry
      = Inr \<lparr>m_name = ''getState'',
             m_inputs = \<lparr>s_signature = [(''x'', POSITIONAL_OR_KEYWORD)],
                          s_types = [TUint 256], s_named_parameters = True\<rparr>,
             m_mutability = VIEW, m_payable = False, m_mutating = False,
             m_single_output = False,
             m_outputs = \<lparr>s_signature = [(''_0'', POSITIONAL_ONLY)],
                           s_types = [TUint 256], s_named_parameters = False\<rparr>\<rparr>
   \<and> Method_decode_output sample_codec (projr (Method_from_json sample_codec get_state_entry))
        (replicate 31 0 @ [7]) = Inr (Tuple [VInt 7])
   \<and> Method_decode_output sample_codec (projr (Method_from_json sample_codec get_state_entry))
        (replicate 31 0 @ [7]) \<noteq> Inr (Bare (VInt 7))"
  by code_simp

section \<open>Constructors in a JSON ABI\<close>

text \<open>
  Only an entry of type \<open>constructor\<close> sets the local variable \<open>constructor\<close> of
  \<open>ContractABI.from_json\<close>, and only while it is \<open>None\<close>.
\<close>

lemma from_json_entry_constructor:
  assumes "from_json_entry c st entry = Inr st'"
  shows "d_constructor st' \<noteq> None \<longleftrightarrow>
           d_constructor st \<noteq> None \<or> map_of entry ''type'' = Some (JStr ''constructor'')"
    and "map_of entry ''type'' = Some (JStr ''constructor'') \<Longrightarrow> d_constructor st = None"
proof -
  from assms obtain tp where tp: "map_of entry ''type'' = Some tp"
    by (cases "map_of entry ''type''") (auto simp: from_json_entry_def getitem_def)
  consider (is_constructor) "tp = JStr ''constructor''" | (is_function) "tp = JStr ''function''"
    | (is_fallback) "tp = JStr ''fallback''" | (is_receive) "tp = JStr ''receive''"
    | (is_event) "tp = JStr ''event''" | (is_error) "tp = JStr ''error''"
    | (is_other) "tp \<noteq> JStr ''constructor''" "tp \<noteq> JStr ''function''"
        "tp \<noteq> JStr ''fallback''" "tp \<noteq> JStr ''receive''" "tp \<noteq> JStr ''event''"
        "tp \<noteq> JStr ''error''"
    by blast
  then have "(d_constructor st' \<noteq> None \<longleftrightarrow> d_constructor st \<noteq> None \<or> tp = JStr ''constructor'')
             \<and> (tp = JStr ''constructor'' \<longrightarrow> d_constructor st = None)"
  proof cases
    case is_constructor
    with assms tp show ?thesis
      by (auto simp: from_json_entry_def getitem_def split: sum.splits if_splits)
  next
    case is_function
    with assms tp show ?thesis
      by (auto simp: from_json_entry_def getitem_def split: option.splits sum.splits if_splits)
  next
    case is_fallback
    with assms tp show ?thesis
      by (auto simp: from_json_entry_def getitem_def split: sum.splits if_splits)
  next
    case is_receive
    with assms tp show ?thesis
      by (auto simp: from_json_entry_def getitem_def split: sum.splits if_splits)
  next
    case is_event
    with assms tp show ?thesis
      by (auto simp: from_json_entry_def getitem_def split: option.splits sum.splits if_splits)
  next
    case is_error
    with assms tp show ?thesis
      by (auto simp: from_json_entry_def getitem_def split: option.splits sum.splits if_splits)
  next
    case is_other
    with assms tp show ?thesis
      by (simp add: from_json_entry_def getitem_def)
  qed
  with tp show "d_constructor st' \<noteq> None \<longleftrightarrow>
           d_constructor st \<noteq> None \<or> map_of entry ''type'' = Some (JStr ''constructor'')"
    and "map_of entry ''type'' = Some (JStr ''constructor'') \<Longrightarrow> d_constructor st = None"
    by auto
qed

lemma from_json_entry_second_constructor:
  "d_constructor st \<noteq> None \<Longrightarrow> map_of entry ''type'' = Some (JStr ''constructor'') \<Longrightarrow>
   from_json_entry c st entry =
     Inl (ValueError ''JSON ABI contains more than one constructor declarations'')"
  by (simp add: from_json_entry_def getitem_def)

lemma from_json_loop_append:
  "from_json_loop c st (xs @ ys) =
     (case from_json_loop c st xs of Inl e \<Rightarrow> Inl e | Inr st' \<Rightarrow> from_json_loop c st' ys)"
  by (induction xs arbitrary: st) (auto split: sum.splits)

lemma from_json_loop_constructor:
  "from_json_loop c st json_abi = Inr st' \<Longrightarrow>
   d_constructor st' \<noteq> None \<longleftrightarrow>
     d_constructor st \<noteq> None
     \<or> (\<exists>e \<in> set json_abi. map_of e ''type'' = Some (JStr ''constructor''))"
proof (induction json_abi arbitrary: st)
  case Nil
  then show ?case by simp
next
  case (Cons entry json_abi)
  from Cons.prems obtain st1 where
    1: "from_json_entry c st entry = Inr st1" and 2: "from_json_loop c st1 json_abi = Inr st'"
    by (auto split: sum.splits)
  show ?case
    using Cons.IH[OF 2] from_json_entry_constructor(1)[OF 1] by auto
qed

lemma from_json_loop_one_constructor:
  "from_json_loop c st json_abi = Inr st' \<Longrightarrow>
   length (filter (\<lambda>e. map_of e ''type'' = Some (JStr ''constructor'')) json_abi)
     \<le> (if d_constructor st = None then 1 else 0)"
proof (induction json_abi arbitrary: st)
  case Nil
  then show ?case by simp
next
  case (Cons entry json_abi)
  from Cons.prems obtain st1 where
    1: "from_json_entry c st entry = Inr st1" and 2: "from_json_loop c st1 json_abi = Inr st'"
    by (auto split: sum.splits)
  show ?case
  proof (cases "map_of entry ''type'' = Some (JStr ''constructor'')")
    case True
    with from_json_entry_constructor[OF 1] have "d_constructor st = None" "d_constructor st1 \<noteq> None"
      by auto
    with Cons.IH[OF 2] True show ?thesis
      by simp
  next
    case False
    with from_json_entry_constructor(1)[OF 1]
    have "d_constructor st1 = None \<longleftrightarrow> d_constructor st = None"
      by auto
    with Cons.IH[OF 2] False show ?thesis
      by simp
  qed
qed

lemma ContractABI_from_json_Inr:
  "ContractABI_from_json c json_abi = Inr abi \<Longrightarrow>
     \<exists>st. from_json_loop c no_declarations json_abi = Inr st
         \<and> abi_constructor abi =
             (case d_constructor st of
                None \<Rightarrow> \<lparr>c_inputs = \<lparr>s_signature = [], s_types = [], s_named_parameters = False\<rparr>,
                          c_payable = False\<rparr>
              | Some k \<Rightarrow> k)"
  by (auto simp: ContractABI_from_json_def ContractABI_init_Inr split: sum.splits)

text \<open>
  Claim C9.  Constructing a \<open>ContractABI\<close> from a declaration list with two constructor
  entries fails: when the entries before the second constructor entry are accepted, with
  the error "JSON ABI contains more than one constructor declarations" (an entry refused
  earlier raises its own error first), and in every case with some error.  A
  \<open>ContractABI\<close> constructed from a list without constructor entries has the default
  constructor, without parameters and not payable.
\<close>

theorem from_json_constructors:
  "(from_json_loop c no_declarations pre = Inr st
      \<and> (\<exists>e \<in> set pre. map_of e ''type'' = Some (JStr ''constructor''))
      \<and> map_of entry ''type'' = Some (JStr ''constructor'') \<longrightarrow>
      ContractABI_from_json c (pre @ entry # post)
        = Inl (ValueError ''JSON ABI contains more than one constructor declarations''))
   \<and> (2 \<le> length (filter (\<lambda>e. map_of e ''type'' = Some (JStr ''constructor'')) json_abi) \<longrightarrow>
      (\<exists>err. ContractABI_from_json c json_abi = Inl err))
   \<and> ((\<forall>e \<in> set json_abi. map_of e ''type'' \<noteq> Some (JStr ''constructor''))
      \<and> ContractABI_from_json c json_abi = Inr abi \<longrightarrow>
      abi_constructor abi =
        \<lparr>c_inputs = \<lparr>s_signature = [], s_types = [], s_named_parameters = False\<rparr>,
         c_payable = False\<rparr>)"
proof -
  have two: "ContractABI_from_json c (pre @ entry # post)
        = Inl (ValueError ''JSON ABI contains more than one constructor declarations'')"
    if pre: "from_json_loop c no_declarations pre = Inr st"
      and ex: "\<exists>e \<in> set pre. map_of e ''type'' = Some (JStr ''constructor'')"
      and entry: "map_of entry ''type'' = Some (JStr ''constructor'')"
  proof -
    from from_json_loop_constructor[OF pre] ex have "d_constructor st \<noteq> None"
      by simp
    then have "from_json_entry c st entry =
                 Inl (ValueError ''JSON ABI contains more than one constructor declarations'')"
      using entry by (rule from_json_entry_second_constructor)
    then show ?thesis
      by (simp add: ContractABI_from_json_def from_json_loop_append pre)
  qed
  have fails: "\<exists>err. ContractABI_from_json c json_abi = Inl err"
    if "2 \<le> length (filter (\<lambda>e. map_of e ''type'' = Some (JStr ''constructor'')) json_abi)"
  proof (cases "ContractABI_from_json c json_abi")
    case (Inl err)
    then show ?thesis by blast
  next
    case (Inr abi')
    then obtain st0 where "from_json_loop c no_declarations json_abi = Inr st0"
      by (blast dest: ContractABI_from_json_Inr)
    from from_json_loop_one_constructor[OF this] that show ?thesis
      by (simp split: if_splits)
  qed
  have none: "abi_constructor abi =
        \<lparr>c_inputs = \<lparr>s_signature = [], s_types = [], s_named_parameters = False\<rparr>,
         c_payable = False\<rparr>"
    if no: "\<forall>e \<in> set json_abi. map_of e ''type'' \<noteq> Some (JStr ''constructor'')"
      and ok: "ContractABI_from_json c json_abi = Inr abi"
  proof -
    from ContractABI_from_json_Inr[OF ok] obtain st0 where
      loop: "from_json_loop c no_declarations json_abi = Inr st0"
      and k: "abi_constructor abi =
             (case d_constructor st0 of
                None \<Rightarrow> \<lparr>c_inputs = \<lparr>s_signature = [], s_types = [], s_named_parameters = False\<rparr>,
                          c_payable = False\<rparr>
              | Some k \<Rightarrow> k)"
      by blast
    from from_json_loop_constructor[OF loop] no have "d_constructor st0 = None"
      by (simp add: no_declarations_def)
    with k show ?thesis
      by simp
  qed
  from two fails none show ?thesis
    by blast
qed

text \<open>
  The theorem at \<open>token_json_abi\<close> preceded by one constructor entry and followed by
  another, at a list of two constructor entries, and at \<open>token_json_abi\<close> alone.
\<close>

theorem from_json_constructors_witness:
  "from_json_loop sample_codec no_declarations (constructor_entry # token_json_abi)
      = Inr (projr (from_json_loop sample_codec no_declarations
                      (constructor_entry # token_json_abi)))
   \<and> list_ex (\<lambda>e. map_of e ''type'' = Some (JStr ''constructor''))
        (constructor_entry # token_json_abi)
   \<and> map_of payable_constructor_entry ''type'' = Some (JStr ''constructor'')
   \<and> ContractABI_from_json sample_codec
        ((constructor_entry # token_json_abi) @ payable_constructor_entry # [])
      = Inl (ValueError ''JSON ABI contains more than one constructor declarations'')
   \<and> 2 \<le> length (filter (\<lambda>e. map_of e ''type'' = Some (JStr ''constructor''))
                     [constructor_entry, constructor_entry])
   \<and> (\<exists>err. ContractABI_from_json sample_codec [constructor_entry, constructor_entry] = Inl err)
   \<and> list_all (\<lambda>e. map_of e ''type'' \<noteq> Some (JStr ''constructor'')) token_json_abi
   \<and> ContractABI_from_json sample_codec token_json_abi
      = Inr (projr (ContractABI_from_json sample_codec token_json_abi))
   \<and> abi_constructor (projr (ContractABI_from_json sample_codec token_json_abi))
      = \<lparr>c_inputs = \<lparr>s_signature = [], s_types = [], s_named_parameters = False\<rparr>,
         c_payable = False\<rparr>"
proof -
  have p1: "from_json_loop sample_codec no_declarations (constructor_entry # token_json_abi)
      = Inr (projr (from_json_loop sample_codec no_declarations
                      (constructor_entry # token_json_abi)))"
    by code_simp
  have p2: "list_ex (\<lambda>e. map_of e ''type'' = Some (JStr ''constructor''))
        (constructor_entry # token_json_abi)"
    by code_simp
  then have p2': "\<exists>e \<in> set (constructor_entry # token_json_abi).
                    map_of e ''type'' = Some (JStr ''constructor'')"
    by (simp only: list_ex_iff)
  have p3: "map_of payable_constructor_entry ''type'' = Some (JStr ''constructor'')"
    by code_simp
  have r1: "ContractABI_from_json sample_codec
        ((constructor_entry # token_json_abi) @ payable_constructor_entry # [])
      = Inl (ValueError ''JSON ABI contains more than one constructor declarations'')"
    using from_json_constructors[where c = sample_codec
            and pre = "constructor_entry # token_json_abi"
            and entry = payable_constructor_entry and post = "[]"] p1 p2' p3
    by blast
  have q1: "2 \<le> length (filter (\<lambda>e. map_of e ''type'' = Some (JStr ''constructor''))
                     [constructor_entry, constructor_entry])"
    by code_simp
  have r2: "\<exists>err. ContractABI_from_json sample_codec [constructor_entry, constructor_entry] = Inl err"
    using from_json_constructors[where c = sample_codec
            and json_abi = "[constructor_entry, constructor_entry]"] q1
    by blast
  have n1: "list_all (\<lambda>e. map_of e ''type'' \<noteq> Some (JStr ''constructor'')) token_json_abi"
    by code_simp
  then have n1': "\<forall>e \<in> set token_json_abi. map_of e ''type'' \<noteq> Some (JStr ''constructor'')"
    by (simp only: list_all_iff)
  have n2: "ContractABI_from_json sample_codec token_json_abi
      = Inr (projr (ContractABI_from_json sample_codec token_json_abi))"
    by code_simp
  have r3: "abi_constructor (projr (ContractABI_from_json sample_codec token_json_abi))
      = \<lparr>c_inputs = \<lparr>s_signature = [], s_types = [], s_named_parameters = False\<rparr>,
         c_payable = False\<rparr>"
    using from_json_constructors[where c = sample_codec and json_abi = token_json_abi
            and abi = "projr (ContractABI_from_json sample_codec token_json_abi)"] n1' n2
    by blast
  show ?thesis
    using p1 p2 p3 r1 q1 r2 n1 n2 r3 by (intro conjI)
qed

end
